theory Spec2Isabelle
  imports Main "HOL-Library.Sublist" "HOL-Library.Multiset" "HOL-Library.State_Monad"
begin

section \<open>JavaScript strings\<close>

text \<open>
  A JavaScript string is a sequence of UTF-16 code units. The character classes the
  program relies on (the white space removed by \<open>trim\<close> and matched by \<open>\s\<close>, the line
  terminators that \<open>.\<close> refuses, the case mappings) reach beyond eight bits, so a string
  is a list of code units, each a natural number below 65536. Literals of the source are
  written \<open>str ''...''\<close>.
\<close>

type_synonym codeunit = nat
type_synonym jsstring = "codeunit list"

definition str :: "string \<Rightarrow> jsstring" where
  "str s = map of_char s"

text \<open>White space and line terminators of ECMAScript: what \<open>String.prototype.trim\<close>
  strips and what the pattern \<open>\s\<close> matches.\<close>

definition isLineTerminator :: "codeunit \<Rightarrow> bool" where
  "isLineTerminator c = (c = 10 \<or> c = 13 \<or> c = 8232 \<or> c = 8233)"

definition isWhiteSpace :: "codeunit \<Rightarrow> bool" where
  "isWhiteSpace c =
     (c = 9 \<or> c = 10 \<or> c = 11 \<or> c = 12 \<or> c = 13 \<or> c = 32 \<or> c = 160 \<or> c = 5760
      \<or> (8192 \<le> c \<and> c \<le> 8202) \<or> c = 8232 \<or> c = 8233 \<or> c = 8239 \<or> c = 8287
      \<or> c = 12288 \<or> c = 65279)"

text \<open>The pattern classes \<open>\d\<close> and \<open>\w\<close> of a pattern without the unicode flag.\<close>

definition isDigit :: "codeunit \<Rightarrow> bool" where
  "isDigit c = (48 \<le> c \<and> c \<le> 57)"

definition isWordChar :: "codeunit \<Rightarrow> bool" where
  "isWordChar c = ((97 \<le> c \<and> c \<le> 122) \<or> (65 \<le> c \<and> c \<le> 90) \<or> isDigit c \<or> c = 95)"

definition trim :: "jsstring \<Rightarrow> jsstring" where
  "trim s = rev (dropWhile isWhiteSpace (rev (dropWhile isWhiteSpace s)))"

text \<open>\<open>s.includes(t)\<close>: \<open>t\<close> occurs in \<open>s\<close> as a contiguous run.\<close>

fun includesStr :: "jsstring \<Rightarrow> jsstring \<Rightarrow> bool" where
  "includesStr [] t = (t = [])"
| "includesStr (c # cs) t = (prefix t (c # cs) \<or> includesStr cs t)"

text \<open>\<open>s.split(sep)\<close> for a string separator: the pieces between the leftmost
  non-overlapping occurrences of \<open>sep\<close>; an empty separator splits into code units.\<close>

function splitFrom :: "jsstring \<Rightarrow> jsstring \<Rightarrow> jsstring \<Rightarrow> jsstring list" where
  "splitFrom sep cur s =
     (if sep \<noteq> [] \<and> prefix sep s then rev cur # splitFrom sep [] (drop (length sep) s)
      else case s of [] \<Rightarrow> [rev cur] | c # cs \<Rightarrow> splitFrom sep (c # cur) cs)"
  by pat_completeness auto
termination
  by (relation "measure (\<lambda>(sep, cur, s). length s)") (auto simp: prefix_def)

declare splitFrom.simps [simp del]

definition split :: "jsstring \<Rightarrow> jsstring \<Rightarrow> jsstring list" where
  "split s sep = (if sep = [] then map (\<lambda>c. [c]) s else splitFrom sep [] s)"

text \<open>\<open>xs.join(sep)\<close>.\<close>

fun join :: "jsstring list \<Rightarrow> jsstring \<Rightarrow> jsstring" where
  "join [] sep = []"
| "join [x] sep = x"
| "join (x # y # ys) sep = x @ sep @ join (y # ys) sep"

text \<open>The leftmost match of a pattern: the matcher is tried at every position from the
  left, the end of the string included.\<close>

fun firstMatch :: "(jsstring \<Rightarrow> 'a option) \<Rightarrow> jsstring \<Rightarrow> 'a option" where
  "firstMatch m [] = m []"
| "firstMatch m (c # cs) = (case m (c # cs) of Some r \<Rightarrow> Some r | None \<Rightarrow> firstMatch m cs)"

subsection \<open>Case mappings\<close>

text \<open>
  \<open>String.prototype.toLowerCase\<close> and the canonicalisation of a pattern with the flag
  \<open>i\<close> (without the unicode flag: the simple upper-case mapping of one code unit, kept
  only when it is again one code unit and does not take a non-ASCII unit into ASCII).
  \<open>toLowerCase\<close> is tabulated for Basic Latin and the Latin-1 Supplement, the
  canonicalisation for these and for the Greek small letters; a code unit outside the
  tables is left as it is. The engine maps further letters there: the capital Greek and
  Cyrillic letters, the Kelvin sign (8490), which becomes \<open>k\<close>, the capital I with a dot
  (304), which becomes two code units, and capital sigma, whose lower case depends on
  its context. The properties proved for all contents use of \<open>toLowerCase\<close> only what
  holds of the engine's mapping as well: the empty string stays empty, a word character
  becomes a word character, and no capital letter of Basic Latin is left.
\<close>

definition lowerUnit :: "codeunit \<Rightarrow> codeunit" where
  "lowerUnit c =
     (if 65 \<le> c \<and> c \<le> 90 then c + 32
      else if 192 \<le> c \<and> c \<le> 222 \<and> c \<noteq> 215 then c + 32
      else c)"

definition toLowerCase :: "jsstring \<Rightarrow> jsstring" where
  "toLowerCase s = map lowerUnit s"

definition canonicalize :: "codeunit \<Rightarrow> codeunit" where
  "canonicalize c =
     (if 97 \<le> c \<and> c \<le> 122 then c - 32
      else if 224 \<le> c \<and> c \<le> 254 \<and> c \<noteq> 247 then c - 32
      else if c = 181 then 924
      else if c = 255 then 376
      else if c = 962 then 931
      else if 945 \<le> c \<and> c \<le> 969 then c - 32
      else c)"

section \<open>The data model (types/highlight.ts)\<close>

text \<open>A \<open>Date\<close> is kept as the program builds it: from the clock (\<open>new Date()\<close>) or
  from a string handed to the platform's date parser (\<open>new Date(s)\<close>).\<close>

datatype jsdate = DateNow | DateOf jsstring

datatype hltype = Highlight | Note | Bookmark

record highlight =
  title :: jsstring
  author :: "jsstring option"
  content :: jsstring
  location :: jsstring
  page :: "jsstring option"
  dateAdded :: jsdate
  type :: hltype
  tags :: "jsstring list"
  userNotes :: "jsstring option"

text \<open>The fields \<open>title\<close> and \<open>author\<close> of \<open>BookHighlights\<close> are \<open>btitle\<close> and
  \<open>bauthor\<close> here, since a field name belongs to one record.\<close>

record bookHighlights =
  btitle :: jsstring
  bauthor :: "jsstring option"
  highlights :: "highlight list"

record highlightLibrary =
  books :: "bookHighlights list"
  totalHighlights :: nat
  lastUpdated :: jsdate

section \<open>The parser (parser/kindleParser.ts)\<close>

definition SEPARATOR :: jsstring where
  "SEPARATOR = str ''==========''"

text \<open>\<open>TITLE_AUTHOR_REGEX = /^(.+) \((.+)\)$/\<close>. Both groups are greedy and \<open>.\<close>
  refuses line terminators, so the first group is the longest prefix, free of line
  terminators, that is followed by a space and an opening parenthesis with a rest
  \<open>g ) \<close> where \<open>g\<close> is not empty and free of line terminators.\<close>

definition titleSplitAt :: "jsstring \<Rightarrow> nat \<Rightarrow> bool" where
  "titleSplitAt s i =
     (let r = drop (i + 2) s in
      \<not> list_ex isLineTerminator (take i s) \<and> take 2 (drop i s) = str '' ('' \<and>
      2 \<le> length r \<and> last r = 41 \<and> \<not> list_ex isLineTerminator (butlast r))"

definition matchTitleAuthor :: "jsstring \<Rightarrow> (jsstring \<times> jsstring) option" where
  "matchTitleAuthor s =
     (case List.find (titleSplitAt s) (rev [1..<length s]) of
        None \<Rightarrow> None
      | Some i \<Rightarrow> Some (take i s, butlast (drop (i + 2) s)))"

text \<open>The group \<open>(\d+-?\d*)\<close> at the head of a string.\<close>

definition digitRange :: "jsstring \<Rightarrow> jsstring option" where
  "digitRange r =
     (let d1 = takeWhile isDigit r; r1 = dropWhile isDigit r in
      if d1 = [] then None
      else Some (case r1 of
                   [] \<Rightarrow> d1
                 | c # r2 \<Rightarrow> if c = 45 then d1 @ [45] @ takeWhile isDigit r2 else d1))"

text \<open>\<open>LOCATION_REGEX = /Location (\d+-?\d*)/\<close>.\<close>

definition matchLocation :: "jsstring \<Rightarrow> jsstring option" where
  "matchLocation s =
     firstMatch (\<lambda>r. if prefix (str ''Location '') r then digitRange (drop 9 r) else None) s"

text \<open>\<open>PAGE_REGEX = /page (\d+-?\d*)/i\<close>: the literal is compared unit by unit after
  canonicalisation.\<close>

definition matchPage :: "jsstring \<Rightarrow> jsstring option" where
  "matchPage s =
     firstMatch (\<lambda>r. if map canonicalize (take 5 r) = map canonicalize (str ''page '')
                      then digitRange (drop 5 r) else None) s"

text \<open>\<open>DATE_REGEX = /Added on (.+)$/\<close>: the group runs to the end of the string, which
  it reaches only when no line terminator stands in the way.\<close>

definition matchDate :: "jsstring \<Rightarrow> jsstring option" where
  "matchDate s =
     firstMatch (\<lambda>r. if prefix (str ''Added on '') r
                      then (let d = drop 9 r in
                            if d \<noteq> [] \<and> \<not> list_ex isLineTerminator d then Some d else None)
                      else None) s"

definition parseEntry :: "jsstring \<Rightarrow> highlight option" where
  "parseEntry entry =
     (let lines = filter (\<lambda>line. length line > 0) (map trim (split entry [10])) in
      if length lines < 2 then None
      else
        let titleLine = lines ! 0;
            (title', author') =
               (case matchTitleAuthor titleLine of
                  Some (g1, g2) \<Rightarrow> (trim g1, Some (trim g2))
                | None \<Rightarrow> (titleLine, None));
            metadataLine = lines ! 1;
            type' = (if includesStr metadataLine (str ''Your Note'') then Note
                     else if includesStr metadataLine (str ''Your Bookmark'') then Bookmark
                     else Highlight);
            location' = (case matchLocation metadataLine of Some l \<Rightarrow> l | None \<Rightarrow> str ''unknown'');
            page' = matchPage metadataLine;
            dateStr = (case matchDate metadataLine of Some d \<Rightarrow> d | None \<Rightarrow> []);
            dateAdded' = (if dateStr \<noteq> [] then DateOf dateStr else DateNow);
            content' = join (drop 2 lines) [10]
        in Some \<lparr> title = title', author = author', content = content', location = location',
                  page = page', dateAdded = dateAdded', type = type', tags = [],
                  userNotes = None \<rparr>)"

text \<open>The first loop of \<open>parseClippings\<close>: the entries that parse, in order. \<open>parseEntry\<close>
  raises nothing, so the \<open>catch\<close> branch has no case here.\<close>

definition parsedHighlights :: "jsstring \<Rightarrow> highlight list" where
  "parsedHighlights fileContent =
     (let entries = filter (\<lambda>entry. length (trim entry) > 0) (split fileContent SEPARATOR)
      in List.map_filter (\<lambda>entry. parseEntry (trim entry)) entries)"

text \<open>The second loop: \<open>bookMap\<close> is a \<open>Map\<close>, which keeps its keys in the order of
  their first insertion; it is the list of its values here.\<close>

fun bookMapPush :: "bookHighlights list \<Rightarrow> highlight \<Rightarrow> bookHighlights list" where
  "bookMapPush [] h = [\<lparr> btitle = title h, bauthor = author h, highlights = [h] \<rparr>]"
| "bookMapPush (b # bs) h =
     (if btitle b = title h then b\<lparr> highlights := highlights b @ [h] \<rparr> # bs
      else b # bookMapPush bs h)"

definition bookMapValues :: "highlight list \<Rightarrow> bookHighlights list" where
  "bookMapValues hs = foldl bookMapPush [] hs"

definition parseClippings :: "jsstring \<Rightarrow> highlightLibrary" where
  "parseClippings fileContent =
     (let hs = parsedHighlights fileContent in
      \<lparr> books = bookMapValues hs, totalHighlights = length hs, lastUpdated = DateNow \<rparr>)"

section \<open>The highlight tools (searchHighlights)\<close>

text \<open>An option left out is \<open>None\<close>; \<open>undefined\<close> is falsy where the source tests it.\<close>

record searchOptions =
  caseSensitive :: "bool option"
  wholeWord :: "bool option"
  includeBooks :: "jsstring list option"
  excludeBooks :: "jsstring list option"
  highlightTypes :: "hltype list option"

definition truthy :: "bool option \<Rightarrow> bool" where
  "truthy b = (b = Some True)"

text \<open>\<open>opt && opt.length > 0\<close> for an optional array.\<close>

definition given :: "'a list option \<Rightarrow> bool" where
  "given opt = (case opt of None \<Rightarrow> False | Some xs \<Rightarrow> length xs > 0)"

definition optIncludes :: "'a list option \<Rightarrow> 'a \<Rightarrow> bool" where
  "optIncludes opt x = (case opt of None \<Rightarrow> False | Some xs \<Rightarrow> x \<in> set xs)"

text \<open>
  The whole-word pattern is \<open>\b\<close>, the query with every syntax character escaped (so
  the query stands for itself), \<open>\b\<close>, with the flag \<open>i\<close> unless the search is case
  sensitive. \<open>\b\<close> holds between a word character and a neighbour that is none (the
  string's ends count as none). With the flag \<open>i\<close> two code units match when their
  canonical forms are equal.
\<close>

definition isWordOpt :: "codeunit option \<Rightarrow> bool" where
  "isWordOpt c = (case c of None \<Rightarrow> False | Some u \<Rightarrow> isWordChar u)"

definition wordBoundary :: "codeunit option \<Rightarrow> codeunit option \<Rightarrow> bool" where
  "wordBoundary a b = (isWordOpt a \<noteq> isWordOpt b)"

definition headOpt :: "jsstring \<Rightarrow> codeunit option" where
  "headOpt r = (case r of [] \<Rightarrow> None | c # _ \<Rightarrow> Some c)"

definition literalAt :: "bool \<Rightarrow> jsstring \<Rightarrow> jsstring \<Rightarrow> bool" where
  "literalAt ignoreCase q r =
     (if ignoreCase then map canonicalize (take (length q) r) = map canonicalize q
      else take (length q) r = q)"

text \<open>The pattern tried at one position: \<open>prev\<close> is the code unit before it, \<open>r\<close> the
  string from it on.\<close>

definition wholeWordAt :: "bool \<Rightarrow> jsstring \<Rightarrow> codeunit option \<Rightarrow> jsstring \<Rightarrow> bool" where
  "wholeWordAt ignoreCase q prev r =
     (wordBoundary prev (headOpt r) \<and> literalAt ignoreCase q r \<and>
      wordBoundary (if q = [] then prev else Some (last (take (length q) r)))
                   (headOpt (drop (length q) r)))"

fun wholeWordFrom :: "bool \<Rightarrow> jsstring \<Rightarrow> codeunit option \<Rightarrow> jsstring \<Rightarrow> bool" where
  "wholeWordFrom ignoreCase q prev [] = wholeWordAt ignoreCase q prev []"
| "wholeWordFrom ignoreCase q prev (c # cs) =
     (wholeWordAt ignoreCase q prev (c # cs) \<or> wholeWordFrom ignoreCase q (Some c) cs)"

text \<open>\<open>regex.test(content)\<close> for the whole-word pattern of \<open>q\<close>.\<close>

definition wholeWordTest :: "bool \<Rightarrow> jsstring \<Rightarrow> jsstring \<Rightarrow> bool" where
  "wholeWordTest ignoreCase q s = wholeWordFrom ignoreCase q None s"

definition isMatch :: "searchOptions \<Rightarrow> jsstring \<Rightarrow> highlight \<Rightarrow> bool" where
  "isMatch options query highlight =
     (let searchQuery = (if truthy (caseSensitive options) then query else toLowerCase query);
          content' = (if truthy (caseSensitive options) then content highlight
                      else toLowerCase (content highlight))
      in if truthy (wholeWord options)
         then wholeWordTest (\<not> truthy (caseSensitive options)) searchQuery content'
         else includesStr content' searchQuery)"

definition booksToSearch :: "highlightLibrary \<Rightarrow> searchOptions \<Rightarrow> bookHighlights list" where
  "booksToSearch library options =
     (let bs1 = (if given (includeBooks options)
                 then filter (\<lambda>book. optIncludes (includeBooks options) (btitle book)) (books library)
                 else books library)
      in if given (excludeBooks options)
         then filter (\<lambda>book. \<not> optIncludes (excludeBooks options) (btitle book)) bs1
         else bs1)"

text \<open>The \<open>continue\<close> of the inner loop: a highlight whose type is not asked for.\<close>

definition typeSkipped :: "searchOptions \<Rightarrow> highlight \<Rightarrow> bool" where
  "typeSkipped options highlight =
     (given (highlightTypes options) \<and> \<not> optIncludes (highlightTypes options) (type highlight))"

definition searchHighlights ::
  "highlightLibrary \<Rightarrow> jsstring \<Rightarrow> searchOptions \<Rightarrow> highlight list" where
  "searchHighlights library query options =
     concat (map (\<lambda>book. filter (\<lambda>highlight. \<not> typeSkipped options highlight \<and>
                                               isMatch options query highlight)
                               (highlights book))
                 (booksToSearch library options))"

section \<open>The highlight tools (autoTagHighlights, groupByTags)\<close>

type_synonym tagTable = "(jsstring \<times> jsstring list) list"

definition defaultTags :: tagTable where
  "defaultTags =
     [(str ''definition'', [str ''means'', str ''is defined as'', str ''refers to'', str ''definition'']),
      (str ''example'', [str ''example'', str ''instance'', str ''illustration'', str ''case study'']),
      (str ''quote'', [str ''said'', str ''according to'', str ''quote'', [34], [34]]),
      (str ''important'', [str ''important'', str ''crucial'', str ''essential'', str ''significant'']),
      (str ''concept'', [str ''concept'', str ''principle'', str ''theory'', str ''framework'', str ''model''])]"

text \<open>
  An object literal with spreads defines its properties one after the other: a key
  already there keeps its place and takes the new value, a new key goes to the end.
  \<open>Object.entries\<close> lists the keys that are array indices first, in ascending numeric
  order, then the others in the order of their creation. A table is the list of an
  object's own properties in creation order.
\<close>

fun defineProperty :: "tagTable \<Rightarrow> jsstring \<times> jsstring list \<Rightarrow> tagTable" where
  "defineProperty [] kv = [kv]"
| "defineProperty ((k, v) # rest) kv =
     (if k = fst kv then (k, snd kv) # rest else (k, v) # defineProperty rest kv)"

definition decimalValue :: "jsstring \<Rightarrow> nat" where
  "decimalValue k = foldl (\<lambda>n c. 10 * n + (c - 48)) 0 k"

definition isArrayIndex :: "jsstring \<Rightarrow> bool" where
  "isArrayIndex k =
     (k \<noteq> [] \<and> list_all isDigit k \<and> (k = [48] \<or> hd k \<noteq> 48) \<and> decimalValue k < 4294967295)"

definition objectEntries :: "tagTable \<Rightarrow> tagTable" where
  "objectEntries obj =
     sort_key (\<lambda>kv. decimalValue (fst kv)) (filter (\<lambda>kv. isArrayIndex (fst kv)) obj)
     @ filter (\<lambda>kv. \<not> isArrayIndex (fst kv)) obj"

definition spread :: "tagTable \<Rightarrow> tagTable \<Rightarrow> tagTable" where
  "spread obj src = foldl defineProperty obj (objectEntries src)"

definition allTags :: "tagTable \<Rightarrow> tagTable" where
  "allTags customTags = spread (spread [] defaultTags) customTags"

text \<open>The two inner loops for one highlight: a tag whose keyword list has a keyword
  occurring in the lower-cased content is pushed unless it is there already; the
  \<open>break\<close> leaves the keyword loop at the first hit.\<close>

fun tagLoop :: "jsstring \<Rightarrow> jsstring list \<Rightarrow> tagTable \<Rightarrow> jsstring list" where
  "tagLoop contentLower ts [] = ts"
| "tagLoop contentLower ts ((tag, keywords) # rest) =
     tagLoop contentLower
       (if list_ex (\<lambda>keyword. includesStr contentLower (toLowerCase keyword)) keywords
        then (if tag \<in> set ts then ts else ts @ [tag])
        else ts)
       rest"

definition autoTagHighlight :: "tagTable \<Rightarrow> highlight \<Rightarrow> highlight" where
  "autoTagHighlight entries highlight =
     (if length (tags highlight) > 0 then highlight
      else highlight\<lparr> tags := tagLoop (toLowerCase (content highlight)) (tags highlight) entries \<rparr>)"

text \<open>\<open>autoTagHighlights\<close> changes the tag arrays in place and returns the library it
  was given: the result is the library after the call.\<close>

definition autoTagHighlights :: "highlightLibrary \<Rightarrow> tagTable \<Rightarrow> highlightLibrary" where
  "autoTagHighlights library customTags =
     library\<lparr> books :=
       map (\<lambda>book. book\<lparr> highlights :=
              map (autoTagHighlight (objectEntries (allTags customTags))) (highlights book) \<rparr>)
           (books library) \<rparr>"

text \<open>\<open>groupByTags\<close>: the \<open>Map\<close> is the list of its entries in insertion order.\<close>

fun tagMapPush :: "(jsstring \<times> highlight list) list \<Rightarrow> jsstring \<Rightarrow> highlight \<Rightarrow>
    (jsstring \<times> highlight list) list" where
  "tagMapPush [] tag h = [(tag, [h])]"
| "tagMapPush ((k, hs) # rest) tag h =
     (if k = tag then (k, hs @ [h]) # rest else (k, hs) # tagMapPush rest tag h)"

definition groupByTags :: "highlightLibrary \<Rightarrow> (jsstring \<times> highlight list) list" where
  "groupByTags library =
     foldl (\<lambda>tagMap highlight. foldl (\<lambda>m tag. tagMapPush m tag highlight) tagMap (tags highlight))
           [] (concat (map highlights (books library)))"

section \<open>The highlight tools (createBookSummary)\<close>

text \<open>\<open>parseInt(s)\<close> with no radix: leading white space, a sign, the prefix \<open>0x\<close> for
  radix 16, then the longest run of digits; \<open>None\<close> is \<open>NaN\<close>. Numbers are integers
  here (a double is exact up to \<open>2^53\<close>).\<close>

definition digitValue :: "codeunit \<Rightarrow> nat option" where
  "digitValue c =
     (if 48 \<le> c \<and> c \<le> 57 then Some (c - 48)
      else if 97 \<le> c \<and> c \<le> 122 then Some (c - 87)
      else if 65 \<le> c \<and> c \<le> 90 then Some (c - 55)
      else None)"

definition isRadixDigit :: "nat \<Rightarrow> codeunit \<Rightarrow> bool" where
  "isRadixDigit radix c = (case digitValue c of None \<Rightarrow> False | Some v \<Rightarrow> v < radix)"

definition radixValue :: "nat \<Rightarrow> jsstring \<Rightarrow> int" where
  "radixValue radix z = int (foldl (\<lambda>n c. radix * n + (case digitValue c of None \<Rightarrow> 0 | Some v \<Rightarrow> v)) 0 z)"

definition parseInt :: "jsstring \<Rightarrow> int option" where
  "parseInt s =
     (let s1 = dropWhile isWhiteSpace s;
          sign = (if take 1 s1 = [45] then - 1 else (1::int));
          s2 = (if take 1 s1 = [45] \<or> take 1 s1 = [43] then drop 1 s1 else s1);
          radix = (if take 2 s2 = str ''0x'' \<or> take 2 s2 = str ''0X'' then 16 else 10);
          s3 = (if radix = 16 then drop 2 s2 else s2);
          z = takeWhile (isRadixDigit radix) s3
      in if z = [] then None else Some (sign * radixValue radix z))"

text \<open>The comparison function of the sort: \<open>locA - locB\<close>, where a \<open>NaN\<close> operand
  gives \<open>NaN\<close>, which \<open>sort\<close> reads as 0.\<close>

definition locationNumber :: "highlight \<Rightarrow> int option" where
  "locationNumber h = parseInt (case split (location h) [45] of [] \<Rightarrow> [] | x # _ \<Rightarrow> x)"

definition compareLocation :: "highlight \<Rightarrow> highlight \<Rightarrow> int" where
  "compareLocation a b =
     (case (locationNumber a, locationNumber b) of
        (Some locA, Some locB) \<Rightarrow> locA - locB
      | _ \<Rightarrow> 0)"

text \<open>\<open>Array.prototype.sort\<close> is stable. It is an insertion sort here, which orders as
  every stable sort does when the comparison is consistent; when it is not (a location
  without a number among others with one) the language leaves the order to the engine.\<close>

fun insertBy :: "('a \<Rightarrow> 'a \<Rightarrow> int) \<Rightarrow> 'a \<Rightarrow> 'a list \<Rightarrow> 'a list" where
  "insertBy cmp x [] = [x]"
| "insertBy cmp x (y # ys) = (if cmp x y \<le> 0 then x # y # ys else y # insertBy cmp x ys)"

definition sortBy :: "('a \<Rightarrow> 'a \<Rightarrow> int) \<Rightarrow> 'a list \<Rightarrow> 'a list" where
  "sortBy cmp xs = foldr (insertBy cmp) xs []"

text \<open>\<open>xs.slice(a, b)\<close> for \<open>0 \<le> a \<le> b\<close>.\<close>

definition slice :: "'a list \<Rightarrow> nat \<Rightarrow> nat \<Rightarrow> 'a list" where
  "slice xs a b = take (b - a) (drop a xs)"

text \<open>The loop \<open>for (let i = 0; i < sortedHighlights.length; i += chapterBreakpoint)\<close>.
  Nothing in the source bounds its number of rounds, so it is a partial function: \<open>None\<close>
  is a run that does not come back.\<close>

partial_function (option) chapterLoop ::
  "nat \<Rightarrow> nat \<Rightarrow> highlight list \<Rightarrow> highlight list list \<Rightarrow> highlight list list option" where
  "chapterLoop i chapterBreakpoint sortedHighlights chapters =
     (if i < length sortedHighlights
      then chapterLoop (i + chapterBreakpoint) chapterBreakpoint sortedHighlights
             (chapters @ [slice sortedHighlights i (i + chapterBreakpoint)])
      else Some chapters)"

fun decimal :: "nat \<Rightarrow> jsstring" where
  "decimal n = (if n < 10 then [48 + n] else decimal (n div 10) @ [48 + n mod 10])"

declare decimal.simps [simp del]

text \<open>A string is truthy when it is there and not empty.\<close>

definition present :: "jsstring option \<Rightarrow> bool" where
  "present s = (case s of None \<Rightarrow> False | Some x \<Rightarrow> x \<noteq> [])"

definition orEmpty :: "jsstring option \<Rightarrow> jsstring" where
  "orEmpty s = (case s of None \<Rightarrow> [] | Some x \<Rightarrow> x)"

definition chapterText :: "nat \<Rightarrow> highlight list \<Rightarrow> jsstring" where
  "chapterText i chapter =
     str ''### Section '' @ decimal (i + 1) @ [10, 10] @
     concat (map (\<lambda>highlight. str ''- '' @ content highlight @ [10])
                 (filter (\<lambda>highlight. type highlight = Highlight \<or> type highlight = Note) chapter))
     @ [10]"

definition createBookSummary :: "bookHighlights \<Rightarrow> jsstring option" where
  "createBookSummary book =
     (if length (highlights book) = 0
      then Some (str ''No highlights found for '' @ [34] @ btitle book @ [34] @ str ''.'')
      else
        let sortedHighlights = sortBy compareLocation (highlights book);
            chapterBreakpoint = length sortedHighlights div 5
        in case chapterLoop 0 chapterBreakpoint sortedHighlights [] of
             None \<Rightarrow> None
           | Some chapters \<Rightarrow>
               Some (str ''# Summary of '' @ [34] @ btitle book @ [34] @ [10, 10] @
                     (if present (bauthor book)
                      then str ''*By '' @ orEmpty (bauthor book) @ str ''*'' @ [10, 10] else []) @
                     str ''## Key Highlights'' @ [10, 10] @
                     concat (map (\<lambda>i. chapterText i (chapters ! i)) [0..<length chapters])))"

section \<open>The highlight tools (exportHighlights)\<close>

datatype jserror = Error jsstring | RangeError jsstring

text \<open>Two services of the platform are parameters: \<open>Date.prototype.toISOString\<close>, which
  raises a \<open>RangeError\<close> on an invalid date (\<open>None\<close>), and \<open>JSON.stringify\<close> of the
  exported object (the books, the count and the date), whose text depends on the order
  in which the properties of each object were created.\<close>

record platform =
  toISOString :: "jsdate \<Rightarrow> jsstring option"
  jsonStringify :: "bookHighlights list \<Rightarrow> nat \<Rightarrow> jsdate \<Rightarrow> jsstring"

record exportOptions =
  exportIncludeBooks :: "jsstring list option"
  includeTags :: "jsstring list option"
  groupByBook :: "bool option"

definition metadata :: "highlight \<Rightarrow> jsstring list" where
  "metadata highlight =
     (if location highlight \<noteq> [] then [str ''Location: '' @ location highlight] else []) @
     (if present (page highlight) then [str ''Page: '' @ orEmpty (page highlight)] else []) @
     (if length (tags highlight) > 0 then [str ''Tags: '' @ join (tags highlight) (str '', '')] else [])"

definition metadataLine :: "highlight \<Rightarrow> jsstring" where
  "metadataLine highlight =
     (if length (metadata highlight) > 0
      then str ''*'' @ join (metadata highlight) (str '' | '') @ str ''*'' @ [10, 10] else [])"

definition exportToMarkdown :: "bookHighlights list \<Rightarrow> bool \<Rightarrow> jsstring" where
  "exportToMarkdown bs byBook =
     str ''# My Kindle Highlights'' @ [10, 10] @
     (if byBook
      then concat (map (\<lambda>book.
             str ''## '' @ btitle book @ [10] @
             (if present (bauthor book)
              then str ''*By '' @ orEmpty (bauthor book) @ str ''*'' @ [10, 10] else []) @
             concat (map (\<lambda>highlight.
                       str ''> '' @ content highlight @ [10, 10] @ metadataLine highlight)
                     (highlights book)) @
             [10] @ str ''---'' @ [10, 10]) bs)
      else concat (map (\<lambda>book.
             concat (map (\<lambda>highlight.
                       str ''> '' @ content highlight @ [10, 10] @
                       str ''*From: '' @ btitle book @
                       (if present (bauthor book) then str '' by '' @ orEmpty (bauthor book) else []) @
                       str ''*'' @ [10, 10] @
                       metadataLine highlight @
                       str ''---'' @ [10, 10])
                     (highlights book))) bs))"

text \<open>\<open>s.replace(/"/g, '""')\<close> and \<open>s.replace(/\n/g, ' ')\<close>.\<close>

definition doubleQuotes :: "jsstring \<Rightarrow> jsstring" where
  "doubleQuotes s = concat (map (\<lambda>c. if c = 34 then [34, 34] else [c]) s)"

definition newlinesToSpaces :: "jsstring \<Rightarrow> jsstring" where
  "newlinesToSpaces s = map (\<lambda>c. if c = 10 then 32 else c) s"

definition typeName :: "hltype \<Rightarrow> jsstring" where
  "typeName t = (case t of Highlight \<Rightarrow> str ''highlight'' | Note \<Rightarrow> str ''note''
                 | Bookmark \<Rightarrow> str ''bookmark'')"

definition csvRow :: "platform \<Rightarrow> bookHighlights \<Rightarrow> highlight \<Rightarrow> jserror + jsstring" where
  "csvRow P book highlight =
     (let escapedContent = newlinesToSpaces (doubleQuotes (content highlight)) in
      case toISOString P (dateAdded highlight) of
        None \<Rightarrow> Inl (RangeError (str ''Invalid time value''))
      | Some isoDate \<Rightarrow>
          Inr (join [ [34] @ doubleQuotes (btitle book) @ [34],
                      (if present (bauthor book)
                       then [34] @ doubleQuotes (orEmpty (bauthor book)) @ [34] else []),
                      [34] @ escapedContent @ [34],
                      location highlight,
                      (if present (page highlight) then orEmpty (page highlight) else []),
                      isoDate,
                      typeName (type highlight),
                      [34] @ join (tags highlight) (str '', '') @ [34] ] (str '','') @ [10]))"

text \<open>The rows in order; the first date that cannot be written ends the export with
  its error.\<close>

fun csvRows :: "platform \<Rightarrow> (bookHighlights \<times> highlight) list \<Rightarrow> jsstring \<Rightarrow> jserror + jsstring" where
  "csvRows P [] csv = Inr csv"
| "csvRows P ((book, highlight) # rest) csv =
     (case csvRow P book highlight of
        Inl e \<Rightarrow> Inl e
      | Inr row \<Rightarrow> csvRows P rest (csv @ row))"

definition exportToCsv :: "platform \<Rightarrow> bookHighlights list \<Rightarrow> jserror + jsstring" where
  "exportToCsv P bs =
     csvRows P (concat (map (\<lambda>book. map (\<lambda>highlight. (book, highlight)) (highlights book)) bs))
       (str ''Book Title,Author,Content,Location,Page,Date Added,Type,Tags'' @ [10])"

definition booksToExport :: "highlightLibrary \<Rightarrow> exportOptions \<Rightarrow> bookHighlights list" where
  "booksToExport library options =
     (let bs1 = (if given (exportIncludeBooks options)
                 then filter (\<lambda>b. optIncludes (exportIncludeBooks options) (btitle b)) (books library)
                 else books library)
      in if given (includeTags options)
         then map (\<lambda>book. book\<lparr> highlights :=
                     filter (\<lambda>highlight. list_ex (\<lambda>tag. optIncludes (includeTags options) tag)
                                                   (tags highlight))
                            (highlights book) \<rparr>) bs1
         else bs1)"

definition exportHighlights ::
  "platform \<Rightarrow> highlightLibrary \<Rightarrow> jsstring \<Rightarrow> exportOptions \<Rightarrow> jserror + jsstring" where
  "exportHighlights P library format options =
     (let bs = booksToExport library options in
      if format = str ''markdown''
      then Inr (exportToMarkdown bs (case groupByBook options of None \<Rightarrow> True | Some g \<Rightarrow> g))
      else if format = str ''csv'' then exportToCsv P bs
      else if format = str ''json''
      then Inr (jsonStringify P bs (sum_list (map (\<lambda>book. length (highlights book)) bs)) DateNow)
      else Inl (Error (str ''Unsupported export format: '' @ format)))"

section \<open>The highlight tools (createFlashcards)\<close>

record flashcard =
  question :: jsstring
  answer :: jsstring
  source :: jsstring

record flashcardOptions =
  onlyTagged :: "jsstring list option"
  maxCards :: "int option"

text \<open>
  \<open>content.split(/\s+is\s+|\s+are\s+/)\<close>. At a position the pattern takes the whole run
  of white space there (one unit at least), then the word, then the whole run of white
  space after it (one unit at least); \<open>spacedWordAt\<close> gives the length of that match.
  \<open>split\<close> tries the pattern at every position from the left and cuts at each match.
\<close>

definition spacedWordAt :: "jsstring \<Rightarrow> jsstring \<Rightarrow> nat option" where
  "spacedWordAt w r =
     (let n1 = length (takeWhile isWhiteSpace r);
          r1 = drop n1 r;
          n2 = length (takeWhile isWhiteSpace (drop (length w) r1))
      in if 0 < n1 \<and> prefix w r1 \<and> 0 < n2 then Some (n1 + length w + n2) else None)"

definition isAreAt :: "jsstring \<Rightarrow> nat option" where
  "isAreAt r =
     (case spacedWordAt (str ''is'') r of
        Some n \<Rightarrow> Some n
      | None \<Rightarrow> spacedWordAt (str ''are'') r)"

function splitIsAre :: "jsstring \<Rightarrow> jsstring \<Rightarrow> jsstring list" where
  "splitIsAre cur [] = [rev cur]"
| "splitIsAre cur (c # cs) =
     (case isAreAt (c # cs) of
        Some n \<Rightarrow> rev cur # splitIsAre [] (drop n (c # cs))
      | None \<Rightarrow> splitIsAre (c # cur) cs)"
  by pat_completeness auto
termination
  by (relation "measure (\<lambda>(cur, s). length s)") (auto simp: isAreAt_def spacedWordAt_def Let_def split: option.splits if_splits)

text \<open>\<open>w.replace(/[.,;:!?]/, '')\<close>: the first such mark is taken out.\<close>

definition isMark :: "codeunit \<Rightarrow> bool" where
  "isMark c = (c = 46 \<or> c = 44 \<or> c = 59 \<or> c = 58 \<or> c = 33 \<or> c = 63)"

fun removeFirst :: "(codeunit \<Rightarrow> bool) \<Rightarrow> jsstring \<Rightarrow> jsstring" where
  "removeFirst P [] = []"
| "removeFirst P (c # cs) = (if P c then cs else c # removeFirst P cs)"

definition commonWords :: "jsstring list" where
  "commonWords = [str ''the'', str ''a'', str ''an'', str ''and'', str ''or'', str ''but'',
                  str ''in'', str ''on'', str ''at'', str ''to'', str ''for'']"

text \<open>The loop that looks for the word to blank: \<open>longestWord\<close> keeps the word as it
  stands in the content, \<open>longestWordIndex\<close> is \<open>None\<close> for \<open>-1\<close>.\<close>

fun longestLoop :: "jsstring list \<Rightarrow> nat \<Rightarrow> jsstring \<Rightarrow> nat option \<Rightarrow> nat option" where
  "longestLoop [] i longestWord longestWordIndex = longestWordIndex"
| "longestLoop (w # ws) i longestWord longestWordIndex =
     (let word = toLowerCase (removeFirst isMark w) in
      if word \<notin> set commonWords \<and> length word > length longestWord
      then longestLoop ws (i + 1) w (Some i)
      else longestLoop ws (i + 1) longestWord longestWordIndex)"

definition makeQuestion :: "highlight \<Rightarrow> jsstring" where
  "makeQuestion highlight =
     (let content' = content highlight in
      if includesStr content' (str '' is '') \<or> includesStr content' (str '' are '')
      then (let parts = splitIsAre [] content' in
            if length parts \<ge> 2 then str ''What is '' @ trim (parts ! 0) @ str ''?'' else [])
      else if str ''quote'' \<in> set (tags highlight)
      then str ''Who said: '' @ [34] @ content' @ [34] @ str ''?''
      else (let words = split content' [32] in
            if length words \<ge> 7
            then (case longestLoop words 0 [] None of
                    Some longestWordIndex \<Rightarrow>
                      join (words[longestWordIndex := str ''________'']) [32]
                  | None \<Rightarrow> [])
            else []))"

text \<open>The body of the inner loop for one highlight: \<open>None\<close> when a \<open>continue\<close> is taken
  or no question comes out, the card that is pushed otherwise.\<close>

definition makeCard :: "flashcardOptions \<Rightarrow> bookHighlights \<Rightarrow> highlight \<Rightarrow> flashcard option" where
  "makeCard options book highlight =
     (if given (onlyTagged options) \<and>
         \<not> list_ex (\<lambda>tag. optIncludes (onlyTagged options) tag) (tags highlight)
      then None
      else if length (split (content highlight) [32]) < 5 then None
      else let q = makeQuestion highlight in
        if q \<noteq> []
        then Some \<lparr> question = q, answer = content highlight,
                    source = btitle book @
                      (if present (bauthor book) then str '' by '' @ orEmpty (bauthor book) else []) \<rparr>
        else None)"

text \<open>\<open>options.maxCards && flashcards.length >= options.maxCards\<close>.\<close>

definition limitReached :: "flashcardOptions \<Rightarrow> flashcard list \<Rightarrow> bool" where
  "limitReached options flashcards =
     (case maxCards options of
        None \<Rightarrow> False
      | Some m \<Rightarrow> m \<noteq> 0 \<and> int (length flashcards) \<ge> m)"

fun highlightLoop ::
  "flashcardOptions \<Rightarrow> bookHighlights \<Rightarrow> flashcard list \<Rightarrow> highlight list \<Rightarrow> flashcard list" where
  "highlightLoop options book flashcards [] = flashcards"
| "highlightLoop options book flashcards (h # hs) =
     (case makeCard options book h of
        None \<Rightarrow> highlightLoop options book flashcards hs
      | Some newCard \<Rightarrow>
          if limitReached options (flashcards @ [newCard]) then flashcards @ [newCard]
          else highlightLoop options book (flashcards @ [newCard]) hs)"

fun bookLoop :: "flashcardOptions \<Rightarrow> flashcard list \<Rightarrow> bookHighlights list \<Rightarrow> flashcard list" where
  "bookLoop options flashcards [] = flashcards"
| "bookLoop options flashcards (b # bs) =
     (let flashcards' = highlightLoop options b flashcards (highlights b) in
      if limitReached options flashcards' then flashcards'
      else bookLoop options flashcards' bs)"

definition createFlashcards :: "highlightLibrary \<Rightarrow> flashcardOptions \<Rightarrow> flashcard list" where
  "createFlashcards library options = bookLoop options [] (books library)"

section \<open>The program over a store\<close>

text \<open>
  The functions above give the program as a function of values. The source works on
  objects: arrays are shared by reference, and \<open>push\<close>, \<open>sort\<close> and an assignment to an
  index change an array in place. For the frame properties the highlight tools are
  written a second time, over an explicit store: a list of cells, a cell being addressed
  by its index. A cell is an array, or the \<open>Map\<close> of \<open>groupByTags\<close> together with the
  arrays it holds. The source assigns to no property of a book, a highlight or the
  library, so these objects are values that hold the addresses of their arrays. Every
  array that the source binds to a name or a property is a cell of the store: an array
  expression yields a new cell where JavaScript creates a new array (the spread,
  \<open>filter\<close>, \<open>map\<close>, \<open>slice\<close>, \<open>split\<close>, an array literal) and the same address where
  it yields the same array (\<open>booksToExport = library.books\<close>). Strings are immutable;
  what the source computes from strings and numbers is taken from the functions above.
\<close>

type_synonym ref = nat

text \<open>A highlight object: its properties (the field \<open>tags\<close> of \<open>props\<close> is not used)
  and the address of its array of tags.\<close>

record objHighlight =
  props :: highlight
  tagsAt :: ref

record objBook =
  obTitle :: jsstring
  obAuthor :: "jsstring option"
  highlightsAt :: ref

record objLibrary =
  booksAt :: ref
  olTotalHighlights :: nat
  olLastUpdated :: jsdate

datatype cell =
    BookArray "objBook list"
  | HighlightArray "objHighlight list"
  | StringArray "jsstring list"
  | RefArray "ref list"
  | CardArray "flashcard list"
  | TagMap "(jsstring \<times> objHighlight list) list"

type_synonym store = "cell list"

text \<open>A new array gets the next address. Reading never changes the store; a write
  changes the one cell it names.\<close>

definition alloc :: "cell \<Rightarrow> (store, ref) state" where
  "alloc c = State (\<lambda>s. (length s, s @ [c]))"

definition cellAt :: "ref \<Rightarrow> (store, cell) state" where
  "cellAt r = State (\<lambda>s. (if r < length s then s ! r else StringArray [], s))"

definition modify :: "ref \<Rightarrow> (cell \<Rightarrow> cell) \<Rightarrow> (store, unit) state" where
  "modify r f = State (\<lambda>s. ((), if r < length s then s[r := f (s ! r)] else s))"

definition readBooks :: "ref \<Rightarrow> (store, objBook list) state" where
  "readBooks r = do { c \<leftarrow> cellAt r; State_Monad.return (case c of BookArray bs \<Rightarrow> bs | _ \<Rightarrow> []) }"

definition readHighlights :: "ref \<Rightarrow> (store, objHighlight list) state" where
  "readHighlights r =
     do { c \<leftarrow> cellAt r; State_Monad.return (case c of HighlightArray hs \<Rightarrow> hs | _ \<Rightarrow> []) }"

definition readStrings :: "ref \<Rightarrow> (store, jsstring list) state" where
  "readStrings r =
     do { c \<leftarrow> cellAt r; State_Monad.return (case c of StringArray xs \<Rightarrow> xs | _ \<Rightarrow> []) }"

definition readRefs :: "ref \<Rightarrow> (store, ref list) state" where
  "readRefs r =
     do { c \<leftarrow> cellAt r; State_Monad.return (case c of RefArray xs \<Rightarrow> xs | _ \<Rightarrow> []) }"

definition readCards :: "ref \<Rightarrow> (store, flashcard list) state" where
  "readCards r =
     do { c \<leftarrow> cellAt r; State_Monad.return (case c of CardArray xs \<Rightarrow> xs | _ \<Rightarrow> []) }"

definition readTagMap :: "ref \<Rightarrow> (store, (jsstring \<times> objHighlight list) list) state" where
  "readTagMap r =
     do { c \<leftarrow> cellAt r; State_Monad.return (case c of TagMap m \<Rightarrow> m | _ \<Rightarrow> []) }"

definition pushHighlight :: "ref \<Rightarrow> objHighlight \<Rightarrow> (store, unit) state" where
  "pushHighlight r h =
     modify r (\<lambda>c. case c of HighlightArray hs \<Rightarrow> HighlightArray (hs @ [h]) | _ \<Rightarrow> c)"

definition pushString :: "ref \<Rightarrow> jsstring \<Rightarrow> (store, unit) state" where
  "pushString r x = modify r (\<lambda>c. case c of StringArray xs \<Rightarrow> StringArray (xs @ [x]) | _ \<Rightarrow> c)"

definition pushRef :: "ref \<Rightarrow> ref \<Rightarrow> (store, unit) state" where
  "pushRef r x = modify r (\<lambda>c. case c of RefArray xs \<Rightarrow> RefArray (xs @ [x]) | _ \<Rightarrow> c)"

definition pushCard :: "ref \<Rightarrow> flashcard \<Rightarrow> (store, unit) state" where
  "pushCard r x = modify r (\<lambda>c. case c of CardArray xs \<Rightarrow> CardArray (xs @ [x]) | _ \<Rightarrow> c)"

definition sortHighlights ::
  "(objHighlight \<Rightarrow> objHighlight \<Rightarrow> int) \<Rightarrow> ref \<Rightarrow> (store, unit) state" where
  "sortHighlights cmp r =
     modify r (\<lambda>c. case c of HighlightArray hs \<Rightarrow> HighlightArray (sortBy cmp hs) | _ \<Rightarrow> c)"

definition setString :: "ref \<Rightarrow> nat \<Rightarrow> jsstring \<Rightarrow> (store, unit) state" where
  "setString r i x = modify r (\<lambda>c. case c of StringArray xs \<Rightarrow> StringArray (xs[i := x]) | _ \<Rightarrow> c)"

text \<open>\<open>for (const x of xs)\<close> without \<open>break\<close>.\<close>

fun forEach :: "'a list \<Rightarrow> ('a \<Rightarrow> (store, unit) state) \<Rightarrow> (store, unit) state" where
  "forEach [] f = State_Monad.return ()"
| "forEach (x # xs) f = do { f x; forEach xs f }"

text \<open>\<open>tagMap.set(tag, [])\<close> and \<open>tagMap.get(tag)?.push(highlight)\<close>.\<close>

definition setTagMap :: "ref \<Rightarrow> jsstring \<Rightarrow> (store, unit) state" where
  "setTagMap r tag = modify r (\<lambda>c. case c of TagMap m \<Rightarrow> TagMap (m @ [(tag, [])]) | _ \<Rightarrow> c)"

definition pushBucket :: "ref \<Rightarrow> jsstring \<Rightarrow> objHighlight \<Rightarrow> (store, unit) state" where
  "pushBucket r tag h =
     modify r (\<lambda>c. case c of
                  TagMap m \<Rightarrow> TagMap (map (\<lambda>(k, hs). if k = tag then (k, hs @ [h]) else (k, hs)) m)
                | _ \<Rightarrow> c)"

text \<open>\<open>searchHighlights\<close>: the spread copies the library's array of books, each \<open>filter\<close>
  makes a new array, \<open>results\<close> is a new array that takes the matches.\<close>

definition booksToSearchH ::
  "objLibrary \<Rightarrow> searchOptions \<Rightarrow> (store, ref) state" where
  "booksToSearchH library options = do {
     libraryBooks \<leftarrow> readBooks (booksAt library);
     copy \<leftarrow> alloc (BookArray libraryBooks);
     included \<leftarrow>
       (if given (includeBooks options)
        then do { bs \<leftarrow> readBooks copy;
                  alloc (BookArray (filter (\<lambda>book. optIncludes (includeBooks options) (obTitle book)) bs)) }
        else State_Monad.return copy);
     (if given (excludeBooks options)
      then do { bs \<leftarrow> readBooks included;
                alloc (BookArray (filter (\<lambda>book. \<not> optIncludes (excludeBooks options) (obTitle book)) bs)) }
      else State_Monad.return included)
   }"

definition searchHighlightsH ::
  "objLibrary \<Rightarrow> jsstring \<Rightarrow> searchOptions \<Rightarrow> (store, ref) state" where
  "searchHighlightsH library query options = do {
     results \<leftarrow> alloc (HighlightArray []);
     booksToSearch \<leftarrow> booksToSearchH library options;
     bs \<leftarrow> readBooks booksToSearch;
     forEach bs (\<lambda>book. do {
       hs \<leftarrow> readHighlights (highlightsAt book);
       forEach hs (\<lambda>highlight.
         if typeSkipped options (props highlight) then State_Monad.return ()
         else if isMatch options query (props highlight) then pushHighlight results highlight
         else State_Monad.return ())
     });
     State_Monad.return results
   }"

text \<open>\<open>groupByTags\<close>.\<close>

definition groupByTagsH :: "objLibrary \<Rightarrow> (store, ref) state" where
  "groupByTagsH library = do {
     tagMap \<leftarrow> alloc (TagMap []);
     bs \<leftarrow> readBooks (booksAt library);
     forEach bs (\<lambda>book. do {
       hs \<leftarrow> readHighlights (highlightsAt book);
       forEach hs (\<lambda>highlight. do {
         ts \<leftarrow> readStrings (tagsAt highlight);
         forEach ts (\<lambda>tag. do {
           m \<leftarrow> readTagMap tagMap;
           (if tag \<notin> set (map fst m) then setTagMap tagMap tag else State_Monad.return ());
           pushBucket tagMap tag highlight
         })
       })
     });
     State_Monad.return tagMap
   }"

text \<open>\<open>createBookSummary\<close>: the highlights are sorted in a copy. The loop over the
  chapters runs for at most \<open>fuel\<close> rounds and tells whether it came to its end, so that
  the store is described after any number of rounds, also of a run that never ends.\<close>

fun chapterLoopH :: "nat \<Rightarrow> nat \<Rightarrow> nat \<Rightarrow> ref \<Rightarrow> ref \<Rightarrow> (store, bool) state" where
  "chapterLoopH 0 i chapterBreakpoint sortedHighlights chapters = do {
     sorted \<leftarrow> readHighlights sortedHighlights;
     State_Monad.return (\<not> i < length sorted)
   }"
| "chapterLoopH (Suc fuel) i chapterBreakpoint sortedHighlights chapters = do {
     sorted \<leftarrow> readHighlights sortedHighlights;
     if i < length sorted
     then do {
       part \<leftarrow> alloc (HighlightArray (slice sorted i (i + chapterBreakpoint)));
       pushRef chapters part;
       chapterLoopH fuel (i + chapterBreakpoint) chapterBreakpoint sortedHighlights chapters
     }
     else State_Monad.return True
   }"

definition createBookSummaryH :: "nat \<Rightarrow> objBook \<Rightarrow> (store, jsstring option) state" where
  "createBookSummaryH fuel book = do {
     hs \<leftarrow> readHighlights (highlightsAt book);
     if length hs = 0
     then State_Monad.return
            (Some (str ''No highlights found for '' @ [34] @ obTitle book @ [34] @ str ''.''))
     else do {
       sortedHighlights \<leftarrow> alloc (HighlightArray hs);
       sortHighlights (\<lambda>a b. compareLocation (props a) (props b)) sortedHighlights;
       sorted \<leftarrow> readHighlights sortedHighlights;
       chapters \<leftarrow> alloc (RefArray []);
       finished \<leftarrow> chapterLoopH fuel 0 (length sorted div 5) sortedHighlights chapters;
       if \<not> finished then State_Monad.return None
       else do {
         cs \<leftarrow> readRefs chapters;
         parts \<leftarrow> State_Monad.traverse_list readHighlights cs;
         State_Monad.return
           (Some (str ''# Summary of '' @ [34] @ obTitle book @ [34] @ [10, 10] @
                  (if present (obAuthor book)
                   then str ''*By '' @ orEmpty (obAuthor book) @ str ''*'' @ [10, 10] else []) @
                  str ''## Key Highlights'' @ [10, 10] @
                  concat (map (\<lambda>i. chapterText i (map props (parts ! i))) [0..<length parts])))
       }
     }
   }"

text \<open>\<open>exportHighlights\<close>: \<open>booksToExport\<close> starts as the library's own array of books;
  \<open>filter\<close> and \<open>map\<close> make new arrays and new book objects. \<open>metadata\<close> and \<open>row\<close> are
  new arrays of strings.\<close>

definition metadataH :: "objHighlight \<Rightarrow> (store, jsstring list) state" where
  "metadataH highlight = do {
     metadata \<leftarrow> alloc (StringArray []);
     (if location (props highlight) \<noteq> []
      then pushString metadata (str ''Location: '' @ location (props highlight))
      else State_Monad.return ());
     (if present (page (props highlight))
      then pushString metadata (str ''Page: '' @ orEmpty (page (props highlight)))
      else State_Monad.return ());
     ts \<leftarrow> readStrings (tagsAt highlight);
     (if length ts > 0
      then pushString metadata (str ''Tags: '' @ join ts (str '', ''))
      else State_Monad.return ());
     readStrings metadata
   }"

definition metadataLineH :: "objHighlight \<Rightarrow> (store, jsstring) state" where
  "metadataLineH highlight = do {
     md \<leftarrow> metadataH highlight;
     State_Monad.return
       (if length md > 0 then str ''*'' @ join md (str '' | '') @ str ''*'' @ [10, 10] else [])
   }"

definition exportToMarkdownH :: "ref \<Rightarrow> bool \<Rightarrow> (store, jsstring) state" where
  "exportToMarkdownH bsAt byBook = do {
     bs \<leftarrow> readBooks bsAt;
     parts \<leftarrow> State_Monad.traverse_list (\<lambda>book. do {
       hs \<leftarrow> readHighlights (highlightsAt book);
       hparts \<leftarrow> State_Monad.traverse_list (\<lambda>highlight. do {
         line \<leftarrow> metadataLineH highlight;
         State_Monad.return
           (if byBook
            then str ''> '' @ content (props highlight) @ [10, 10] @ line
            else str ''> '' @ content (props highlight) @ [10, 10] @
                 str ''*From: '' @ obTitle book @
                 (if present (obAuthor book) then str '' by '' @ orEmpty (obAuthor book) else []) @
                 str ''*'' @ [10, 10] @ line @ str ''---'' @ [10, 10])
       }) hs;
       State_Monad.return
         (if byBook
          then str ''## '' @ obTitle book @ [10] @
               (if present (obAuthor book)
                then str ''*By '' @ orEmpty (obAuthor book) @ str ''*'' @ [10, 10] else []) @
               concat hparts @ [10] @ str ''---'' @ [10, 10]
          else concat hparts)
     }) bs;
     State_Monad.return (str ''# My Kindle Highlights'' @ [10, 10] @ concat parts)
   }"

definition csvRowH ::
  "platform \<Rightarrow> objBook \<Rightarrow> objHighlight \<Rightarrow> (store, jserror + jsstring) state" where
  "csvRowH P book highlight = do {
     ts \<leftarrow> readStrings (tagsAt highlight);
     case toISOString P (dateAdded (props highlight)) of
       None \<Rightarrow> State_Monad.return (Inl (RangeError (str ''Invalid time value'')))
     | Some isoDate \<Rightarrow> do {
         row \<leftarrow> alloc (StringArray
           [ [34] @ doubleQuotes (obTitle book) @ [34],
             (if present (obAuthor book)
              then [34] @ doubleQuotes (orEmpty (obAuthor book)) @ [34] else []),
             [34] @ newlinesToSpaces (doubleQuotes (content (props highlight))) @ [34],
             location (props highlight),
             (if present (page (props highlight)) then orEmpty (page (props highlight)) else []),
             isoDate,
             typeName (type (props highlight)),
             [34] @ join ts (str '', '') @ [34] ]);
         xs \<leftarrow> readStrings row;
         State_Monad.return (Inr (join xs (str '','') @ [10]))
       }
   }"

fun csvRowsH ::
  "platform \<Rightarrow> (objBook \<times> objHighlight) list \<Rightarrow> jsstring \<Rightarrow> (store, jserror + jsstring) state" where
  "csvRowsH P [] csv = State_Monad.return (Inr csv)"
| "csvRowsH P ((book, highlight) # rest) csv = do {
     r \<leftarrow> csvRowH P book highlight;
     case r of
       Inl e \<Rightarrow> State_Monad.return (Inl e)
     | Inr row \<Rightarrow> csvRowsH P rest (csv @ row)
   }"

definition exportToCsvH :: "platform \<Rightarrow> ref \<Rightarrow> (store, jserror + jsstring) state" where
  "exportToCsvH P bsAt = do {
     bs \<leftarrow> readBooks bsAt;
     pairs \<leftarrow> State_Monad.traverse_list (\<lambda>book. do {
       hs \<leftarrow> readHighlights (highlightsAt book);
       State_Monad.return (map (\<lambda>highlight. (book, highlight)) hs)
     }) bs;
     csvRowsH P (concat pairs)
       (str ''Book Title,Author,Content,Location,Page,Date Added,Type,Tags'' @ [10])
   }"

definition readHighlightValue :: "objHighlight \<Rightarrow> (store, highlight) state" where
  "readHighlightValue h = do {
     ts \<leftarrow> readStrings (tagsAt h);
     State_Monad.return ((props h)\<lparr> tags := ts \<rparr>)
   }"

definition readBookValue :: "objBook \<Rightarrow> (store, bookHighlights) state" where
  "readBookValue b = do {
     hs \<leftarrow> readHighlights (highlightsAt b);
     vs \<leftarrow> State_Monad.traverse_list readHighlightValue hs;
     State_Monad.return \<lparr> btitle = obTitle b, bauthor = obAuthor b, highlights = vs \<rparr>
   }"

fun keepTagged :: "exportOptions \<Rightarrow> objHighlight list \<Rightarrow> (store, objHighlight list) state" where
  "keepTagged options [] = State_Monad.return []"
| "keepTagged options (h # hs) = do {
     ts \<leftarrow> readStrings (tagsAt h);
     rest \<leftarrow> keepTagged options hs;
     State_Monad.return
       (if list_ex (\<lambda>tag. optIncludes (includeTags options) tag) ts then h # rest else rest)
   }"

definition booksToExportH :: "objLibrary \<Rightarrow> exportOptions \<Rightarrow> (store, ref) state" where
  "booksToExportH library options = do {
     filtered \<leftarrow>
       (if given (exportIncludeBooks options)
        then do { bs \<leftarrow> readBooks (booksAt library);
                  alloc (BookArray
                    (filter (\<lambda>b. optIncludes (exportIncludeBooks options) (obTitle b)) bs)) }
        else State_Monad.return (booksAt library));
     (if given (includeTags options)
      then do {
        bs \<leftarrow> readBooks filtered;
        mapped \<leftarrow> State_Monad.traverse_list (\<lambda>book. do {
          hs \<leftarrow> readHighlights (highlightsAt book);
          kept \<leftarrow> keepTagged options hs;
          r \<leftarrow> alloc (HighlightArray kept);
          State_Monad.return (book\<lparr> highlightsAt := r \<rparr>)
        }) bs;
        alloc (BookArray mapped)
      }
      else State_Monad.return filtered)
   }"

definition exportHighlightsH ::
  "platform \<Rightarrow> objLibrary \<Rightarrow> jsstring \<Rightarrow> exportOptions \<Rightarrow> (store, jserror + jsstring) state" where
  "exportHighlightsH P library format options = do {
     booksToExport \<leftarrow> booksToExportH library options;
     if format = str ''markdown''
     then do {
       t \<leftarrow> exportToMarkdownH booksToExport
              (case groupByBook options of None \<Rightarrow> True | Some g \<Rightarrow> g);
       State_Monad.return (Inr t)
     }
     else if format = str ''csv'' then exportToCsvH P booksToExport
     else if format = str ''json''
     then do {
       bs \<leftarrow> readBooks booksToExport;
       vs \<leftarrow> State_Monad.traverse_list readBookValue bs;
       State_Monad.return
         (Inr (jsonStringify P vs (sum_list (map (\<lambda>book. length (highlights book)) vs)) DateNow))
     }
     else State_Monad.return (Inl (Error (str ''Unsupported export format: '' @ format)))
   }"

text \<open>\<open>createFlashcards\<close>: \<open>words\<close> is the new array that \<open>split\<close> returns, the one
  whose longest word is overwritten; \<open>flashcards\<close> is a new array.\<close>

definition makeQuestionH :: "highlight \<Rightarrow> (store, jsstring) state" where
  "makeQuestionH highlight =
     (let content' = content highlight in
      if includesStr content' (str '' is '') \<or> includesStr content' (str '' are '')
      then do {
        parts \<leftarrow> alloc (StringArray (splitIsAre [] content'));
        ps \<leftarrow> readStrings parts;
        State_Monad.return
          (if length ps \<ge> 2 then str ''What is '' @ trim (ps ! 0) @ str ''?'' else [])
      }
      else if str ''quote'' \<in> set (tags highlight)
      then State_Monad.return (str ''Who said: '' @ [34] @ content' @ [34] @ str ''?'')
      else do {
        words \<leftarrow> alloc (StringArray (split content' [32]));
        ws \<leftarrow> readStrings words;
        if length ws \<ge> 7
        then (case longestLoop ws 0 [] None of
                Some longestWordIndex \<Rightarrow> do {
                  setString words longestWordIndex (str ''________'');
                  ws' \<leftarrow> readStrings words;
                  State_Monad.return (join ws' [32])
                }
              | None \<Rightarrow> State_Monad.return [])
        else State_Monad.return []
      })"

fun highlightLoopH ::
  "flashcardOptions \<Rightarrow> objBook \<Rightarrow> ref \<Rightarrow> objHighlight list \<Rightarrow> (store, unit) state" where
  "highlightLoopH options book flashcards [] = State_Monad.return ()"
| "highlightLoopH options book flashcards (h # hs) = do {
     ts \<leftarrow> readStrings (tagsAt h);
     if given (onlyTagged options) \<and> \<not> list_ex (\<lambda>tag. optIncludes (onlyTagged options) tag) ts
     then highlightLoopH options book flashcards hs
     else if length (split (content (props h)) [32]) < 5
     then highlightLoopH options book flashcards hs
     else do {
       q \<leftarrow> makeQuestionH ((props h)\<lparr> tags := ts \<rparr>);
       if q \<noteq> []
       then do {
         pushCard flashcards
           \<lparr> question = q, answer = content (props h),
             source = obTitle book @
               (if present (obAuthor book) then str '' by '' @ orEmpty (obAuthor book) else []) \<rparr>;
         cards \<leftarrow> readCards flashcards;
         if limitReached options cards then State_Monad.return ()
         else highlightLoopH options book flashcards hs
       }
       else highlightLoopH options book flashcards hs
     }
   }"

fun bookLoopH :: "flashcardOptions \<Rightarrow> ref \<Rightarrow> objBook list \<Rightarrow> (store, unit) state" where
  "bookLoopH options flashcards [] = State_Monad.return ()"
| "bookLoopH options flashcards (b # bs) = do {
     hs \<leftarrow> readHighlights (highlightsAt b);
     highlightLoopH options b flashcards hs;
     cards \<leftarrow> readCards flashcards;
     if limitReached options cards then State_Monad.return ()
     else bookLoopH options flashcards bs
   }"

definition createFlashcardsH :: "objLibrary \<Rightarrow> flashcardOptions \<Rightarrow> (store, ref) state" where
  "createFlashcardsH library options = do {
     flashcards \<leftarrow> alloc (CardArray []);
     bs \<leftarrow> readBooks (booksAt library);
     bookLoopH options flashcards bs;
     State_Monad.return flashcards
   }"

text \<open>\<open>autoTagHighlights\<close>: the tags are pushed onto the arrays of the library's own
  highlights.\<close>

definition autoTagHighlightsH :: "objLibrary \<Rightarrow> tagTable \<Rightarrow> (store, objLibrary) state" where
  "autoTagHighlightsH library customTags = do {
     bs \<leftarrow> readBooks (booksAt library);
     forEach bs (\<lambda>book. do {
       hs \<leftarrow> readHighlights (highlightsAt book);
       forEach hs (\<lambda>highlight. do {
         ts \<leftarrow> readStrings (tagsAt highlight);
         if length ts > 0 then State_Monad.return ()
         else forEach (objectEntries (allTags customTags)) (\<lambda>(tag, keywords).
           if list_ex (\<lambda>keyword. includesStr (toLowerCase (content (props highlight)))
                                            (toLowerCase keyword)) keywords
           then do {
             ts' \<leftarrow> readStrings (tagsAt highlight);
             if tag \<in> set ts' then State_Monad.return ()
             else pushString (tagsAt highlight) tag
           }
           else State_Monad.return ())
       })
     });
     State_Monad.return library
   }"

section \<open>Notions used in the statements\<close>

text \<open>A computation keeps the first \<open>n\<close> cells of every store that has them, and its
  result satisfies \<open>Q\<close>.\<close>

definition frame :: "nat \<Rightarrow> (store, 'a) state \<Rightarrow> ('a \<Rightarrow> bool) \<Rightarrow> bool" where
  "frame n m Q =
     (\<forall>s. n \<le> length s \<longrightarrow>
        n \<le> length (snd (run_state m s)) \<and> take n (snd (run_state m s)) = take n s \<and>
        Q (fst (run_state m s)))"

text \<open>A cell after a step that only appends to arrays of strings.\<close>

definition tagsOnly :: "cell \<Rightarrow> cell \<Rightarrow> bool" where
  "tagsOnly c c' =
     (case c of
        StringArray ts \<Rightarrow> (case c' of StringArray ts' \<Rightarrow> prefix ts ts' | _ \<Rightarrow> False)
      | _ \<Rightarrow> c' = c)"

definition onlyTags :: "(store, 'a) state \<Rightarrow> bool" where
  "onlyTags m = (\<forall>s. list_all2 tagsOnly s (snd (run_state m s)))"

text \<open>The library as a value, read from the store through the addresses it holds; a
  well-formed library has all its addresses in the store.\<close>

definition booksIn :: "store \<Rightarrow> ref \<Rightarrow> objBook list" where
  "booksIn s r = (if r < length s then (case s ! r of BookArray bs \<Rightarrow> bs | _ \<Rightarrow> []) else [])"

definition highlightsIn :: "store \<Rightarrow> ref \<Rightarrow> objHighlight list" where
  "highlightsIn s r =
     (if r < length s then (case s ! r of HighlightArray hs \<Rightarrow> hs | _ \<Rightarrow> []) else [])"

definition stringsIn :: "store \<Rightarrow> ref \<Rightarrow> jsstring list" where
  "stringsIn s r = (if r < length s then (case s ! r of StringArray xs \<Rightarrow> xs | _ \<Rightarrow> []) else [])"

definition valueOfHighlight :: "store \<Rightarrow> objHighlight \<Rightarrow> highlight" where
  "valueOfHighlight s h = (props h)\<lparr> tags := stringsIn s (tagsAt h) \<rparr>"

definition valueOfBook :: "store \<Rightarrow> objBook \<Rightarrow> bookHighlights" where
  "valueOfBook s b =
     \<lparr> btitle = obTitle b, bauthor = obAuthor b,
       highlights = map (valueOfHighlight s) (highlightsIn s (highlightsAt b)) \<rparr>"

definition valueOfLibrary :: "store \<Rightarrow> objLibrary \<Rightarrow> highlightLibrary" where
  "valueOfLibrary s library =
     \<lparr> books = map (valueOfBook s) (booksIn s (booksAt library)),
       totalHighlights = olTotalHighlights library, lastUpdated = olLastUpdated library \<rparr>"

definition wellFormed :: "store \<Rightarrow> objLibrary \<Rightarrow> bool" where
  "wellFormed s library =
     (booksAt library < length s \<and>
      list_all (\<lambda>b. highlightsAt b < length s \<and>
                    list_all (\<lambda>h. tagsAt h < length s) (highlightsIn s (highlightsAt b)))
               (booksIn s (booksAt library)))"

text \<open>The library with every list of tags emptied.\<close>

definition withoutTags :: "highlightLibrary \<Rightarrow> highlightLibrary" where
  "withoutTags library =
     library\<lparr> books := map (\<lambda>b. b\<lparr> highlights := map (\<lambda>h. h\<lparr> tags := [] \<rparr>) (highlights b) \<rparr>)
                          (books library) \<rparr>"

text \<open>A code unit that is not a capital letter of Basic Latin.\<close>

definition lowered :: "codeunit \<Rightarrow> bool" where
  "lowered c = (\<not> (65 \<le> c \<and> c \<le> 90))"

text \<open>The text before the leftmost match of \<open>/\s+is\s+|\s+are\s+/\<close>, and whether there
  is a match at all.\<close>

fun beforeMatch :: "jsstring \<Rightarrow> jsstring" where
  "beforeMatch [] = []"
| "beforeMatch (c # cs) = (if isAreAt (c # cs) \<noteq> None then [] else c # beforeMatch cs)"

fun hasMatch :: "jsstring \<Rightarrow> bool" where
  "hasMatch [] = False"
| "hasMatch (c # cs) = (isAreAt (c # cs) \<noteq> None \<or> hasMatch cs)"

text \<open>In the words of the specification: the text before the first occurrence of
  \<open>" is "\<close> or \<open>" are "\<close>.\<close>

fun beforeIsAre :: "jsstring \<Rightarrow> jsstring" where
  "beforeIsAre [] = []"
| "beforeIsAre (c # cs) =
     (if prefix (str '' is '') (c # cs) \<or> prefix (str '' are '') (c # cs) then []
      else c # beforeIsAre cs)"

text \<open>A content whose only white space is the space character.\<close>

definition spacesOnly :: "jsstring \<Rightarrow> bool" where
  "spacesOnly s = list_all (\<lambda>u. if isWhiteSpace u then u = 32 else True) s"

text \<open>The card that the loop of \<open>createFlashcards\<close> pushes for a highlight that no tag test
  holds back: none for a content of fewer than five tokens or without a question.\<close>

definition cardFor :: "bookHighlights \<Rightarrow> highlight \<Rightarrow> flashcard option" where
  "cardFor book h =
     (if length (split (content h) [32]) < 5 \<or> makeQuestion h = [] then None
      else Some \<lparr> question = makeQuestion h, answer = content h,
                  source = btitle book @
                    (if present (bauthor book) then str '' by '' @ orEmpty (bauthor book)
                     else []) \<rparr>)"

text \<open>A highlight that the \<open>onlyTagged\<close> option lets through.\<close>

definition passesOnlyTagged :: "flashcardOptions \<Rightarrow> highlight \<Rightarrow> bool" where
  "passesOnlyTagged options h =
     (if given (onlyTagged options)
      then list_ex (\<lambda>tag. optIncludes (onlyTagged options) tag) (tags h) else True)"

section \<open>Inputs of the scenarios\<close>

text \<open>Scenario 1 of the specification: one entry, closed by the separator line.\<close>

definition scenario1Entry :: jsstring where
  "scenario1Entry =
     str ''Book Title (Author Name)'' @ [10] @
     str ''Your Highlight | Location 12-13 | Added on Monday, January 1, 2024 10:00:00 AM'' @
     [10, 10] @ str ''This is the highlighted text.'' @ [10]"

definition scenario1 :: jsstring where
  "scenario1 = scenario1Entry @ str ''==========''"

definition scenario1Highlight :: highlight where
  "scenario1Highlight =
     \<lparr> title = str ''Book Title'', author = Some (str ''Author Name''),
       content = str ''This is the highlighted text.'', location = str ''12-13'',
       page = None, dateAdded = DateOf (str ''Monday, January 1, 2024 10:00:00 AM''),
       type = Highlight, tags = [], userNotes = None \<rparr>"

text \<open>A file of three entries for two books: a note and a bookmark of book \<open>A\<close>, with a
  highlight of book \<open>B\<close> between them.\<close>

definition threeEntries :: jsstring where
  "threeEntries =
     str ''A'' @ [10] @ str ''Your Note'' @ [10] @ str ''x'' @ [10] @ str ''=========='' @ [10] @
     str ''B'' @ [10] @ str ''Your Highlight'' @ [10] @ str ''y'' @ [10] @ str ''=========='' @ [10] @
     str ''A'' @ [10] @ str ''Your Bookmark'' @ [10] @ str ''=========='' @ [10]"

definition plainHighlight :: "jsstring \<Rightarrow> hltype \<Rightarrow> jsstring \<Rightarrow> highlight" where
  "plainHighlight t k c =
     \<lparr> title = t, author = None, content = c, location = str ''unknown'', page = None,
       dateAdded = DateNow, type = k, tags = [], userNotes = None \<rparr>"

text \<open>Libraries of one book, and the options that leave everything out.\<close>

definition singleBook :: "highlight list \<Rightarrow> highlightLibrary" where
  "singleBook hs =
     \<lparr> books = [\<lparr> btitle = str ''B'', bauthor = None, highlights = hs \<rparr>],
       totalHighlights = length hs, lastUpdated = DateNow \<rparr>"

definition noSearchOptions :: searchOptions where
  "noSearchOptions =
     \<lparr> caseSensitive = None, wholeWord = None, includeBooks = None, excludeBooks = None,
       highlightTypes = None \<rparr>"

text \<open>Scenario 4: a highlight without tags whose content has a keyword of the tag
  \<open>definition\<close>, beside a note tagged by hand.\<close>

definition taggingLibrary :: highlightLibrary where
  "taggingLibrary =
     singleBook
       [plainHighlight (str ''B'') Highlight (str ''Democracy is defined as rule by the people''),
        (plainHighlight (str ''B'') Note (str ''An example''))\<lparr> tags := [str ''mine''] \<rparr>]"

definition noExportOptions :: exportOptions where
  "noExportOptions = \<lparr> exportIncludeBooks = None, includeTags = None, groupByBook = None \<rparr>"

definition noFlashcardOptions :: flashcardOptions where
  "noFlashcardOptions = \<lparr> onlyTagged = None, maxCards = None \<rparr>"

text \<open>A platform that writes no date and an empty JSON text.\<close>

definition noPlatform :: platform where
  "noPlatform = \<lparr> toISOString = (\<lambda>d. None), jsonStringify = (\<lambda>bs n d. []) \<rparr>"

text \<open>Scenario 5, and a content whose first \<open>is\<close> follows a line break.\<close>

definition gravityContent :: jsstring where
  "gravityContent = str ''Gravity is the force that attracts objects''"

definition skyContent :: jsstring where
  "skyContent = str ''The sky'' @ [10] @ str ''is blue and grass is green''"

text \<open>A store that holds a library of one book with one highlight without tags.\<close>

definition sampleStore :: store where
  "sampleStore =
     [BookArray [\<lparr> obTitle = str ''B'', obAuthor = None, highlightsAt = 1 \<rparr>],
      HighlightArray
        [\<lparr> props = plainHighlight (str ''B'') Highlight
                     (str ''Democracy is defined as rule by the people''),
           tagsAt = 2 \<rparr>],
      StringArray []]"

definition sampleLibrary :: objLibrary where
  "sampleLibrary = \<lparr> booksAt = 0, olTotalHighlights = 1, olLastUpdated = DateNow \<rparr>"

text \<open>A platform that writes every date as the same text, and a book of five
  highlights without locations.\<close>

definition fixedDatePlatform :: platform where
  "fixedDatePlatform =
     \<lparr> toISOString = (\<lambda>d. Some (str ''2024-01-01T10:00:00.000Z'')),
       jsonStringify = (\<lambda>bs n d. []) \<rparr>"

definition fiveHighlights :: bookHighlights where
  "fiveHighlights =
     \<lparr> btitle = str ''B'', bauthor = None,
       highlights = [plainHighlight (str ''B'') Highlight (str ''c''),
                     plainHighlight (str ''B'') Highlight (str ''a''),
                     plainHighlight (str ''B'') Bookmark [],
                     plainHighlight (str ''B'') Note (str ''b''),
                     plainHighlight (str ''B'') Highlight (str ''d'')] \<rparr>"

section \<open>Properties of the parser\<close>

subsection \<open>Evaluation of the scenarios\<close>

lemma scenario1_split: "split scenario1 SEPARATOR = [scenario1Entry, []]"
  by (simp add: scenario1_def scenario1Entry_def SEPARATOR_def str_def split_def splitFrom.simps)

lemma scenario1_trim: "trim scenario1Entry \<noteq> []" "trim [] = []"
  by (simp_all add: scenario1Entry_def str_def trim_def isWhiteSpace_def)

lemma scenario1_parseEntry: "parseEntry (trim scenario1Entry) = Some scenario1Highlight"
  by (simp add: scenario1Entry_def scenario1Highlight_def str_def parseEntry_def split_def
      splitFrom.simps trim_def isWhiteSpace_def matchTitleAuthor_def titleSplitAt_def
      isLineTerminator_def matchLocation_def digitRange_def isDigit_def matchPage_def
      matchDate_def canonicalize_def)

lemma scenario1_parsed: "parsedHighlights scenario1 = [scenario1Highlight]"
  by (simp add: parsedHighlights_def scenario1_split scenario1_trim scenario1_parseEntry
      List.map_filter_simps)

text \<open>
  Claim C7. Parsing the input of Scenario 1 (title line \<open>Book Title (Author Name)\<close>, a
  metadata line with \<open>Your Highlight\<close>, \<open>Location 12-13\<close> and a date, an empty line, the
  text, the separator) gives a library with one book and exactly one highlight, whose
  title is \<open>Book Title\<close>, author \<open>Author Name\<close>, type highlight, location \<open>12-13\<close> and
  content \<open>This is the highlighted text.\<close>
\<close>

theorem parse_scenario1:
  "parseClippings scenario1 =
     \<lparr> books = [\<lparr> btitle = str ''Book Title'', bauthor = Some (str ''Author Name''),
                   highlights = [scenario1Highlight] \<rparr>],
       totalHighlights = 1, lastUpdated = DateNow \<rparr>"
  by (simp add: parseClippings_def scenario1_parsed bookMapValues_def)
     (simp add: scenario1Highlight_def)

text \<open>Scenario 2: a metadata line with \<open>Your Bookmark\<close> and no location gives the type
  bookmark and the location \<open>unknown\<close>; the entry has no content.\<close>

theorem bookmark_scenario2:
  "parseEntry (str ''Book Title'' @ [10] @ str ''- Your Bookmark | Added on Monday'') =
     Some \<lparr> title = str ''Book Title'', author = None, content = [], location = str ''unknown'',
            page = None, dateAdded = DateOf (str ''Monday''), type = Bookmark, tags = [],
            userNotes = None \<rparr>"
  by (simp add: str_def parseEntry_def split_def
      splitFrom.simps trim_def isWhiteSpace_def matchTitleAuthor_def titleSplitAt_def
      isLineTerminator_def matchLocation_def digitRange_def isDigit_def matchPage_def
      matchDate_def canonicalize_def)

subsection \<open>Grouping by book\<close>

lemma bookMapPush_count:
  "sum_list (map (\<lambda>b. length (highlights b)) (bookMapPush bs h)) =
     Suc (sum_list (map (\<lambda>b. length (highlights b)) bs))"
  by (induction bs) auto

lemma bookMapPush_titles:
  "set (map btitle (bookMapPush bs h)) = insert (title h) (set (map btitle bs))"
  by (induction bs) auto

lemma bookMapPush_distinct:
  "distinct (map btitle bs) \<Longrightarrow> distinct (map btitle (bookMapPush bs h))"
proof (induction bs)
  case Nil
  then show ?case by simp
next
  case (Cons b bs)
  then show ?case
    using bookMapPush_titles [of bs h] by auto
qed

lemma bookMapPush_same_title:
  "\<forall>b \<in> set bs. \<forall>x \<in> set (highlights b). title x = btitle b \<Longrightarrow>
   \<forall>b \<in> set (bookMapPush bs h). \<forall>x \<in> set (highlights b). title x = btitle b"
  by (induction bs) auto

lemma bookMapPush_mset:
  "mset (concat (map highlights (bookMapPush bs h))) =
     add_mset h (mset (concat (map highlights bs)))"
  by (induction bs) auto

lemma bookMapFold_count:
  "sum_list (map (\<lambda>b. length (highlights b)) (foldl bookMapPush bs hs)) =
     sum_list (map (\<lambda>b. length (highlights b)) bs) + length hs"
  by (induction hs arbitrary: bs) (simp_all add: bookMapPush_count)

lemma bookMapFold_distinct:
  "distinct (map btitle bs) \<Longrightarrow> distinct (map btitle (foldl bookMapPush bs hs))"
  by (induction hs arbitrary: bs) (simp_all add: bookMapPush_distinct)

lemma bookMapFold_same_title:
  "\<forall>b \<in> set bs. \<forall>x \<in> set (highlights b). title x = btitle b \<Longrightarrow>
   \<forall>b \<in> set (foldl bookMapPush bs hs). \<forall>x \<in> set (highlights b). title x = btitle b"
proof (induction hs arbitrary: bs)
  case Nil
  then show ?case by simp
next
  case (Cons h hs)
  from Cons.prems
  have "\<forall>b \<in> set (bookMapPush bs h). \<forall>x \<in> set (highlights b). title x = btitle b"
    by (rule bookMapPush_same_title)
  then show ?case
    using Cons.IH [of "bookMapPush bs h"] by simp
qed

lemma bookMapFold_mset:
  "mset (concat (map highlights (foldl bookMapPush bs hs))) =
     mset (concat (map highlights bs)) + mset hs"
  by (induction hs arbitrary: bs) (simp_all add: bookMapPush_mset)

text \<open>
  Claim C5. For every raw input, the library that \<open>parseClippings\<close> returns has
  \<open>totalHighlights\<close> equal to the sum of the lengths of its books' highlight lists; the
  books have pairwise different titles, every highlight of a book carries the book's
  title, and the highlights of all books together are the parsed highlights, each as
  often as it was parsed: a parsed highlight sits in exactly one book, the one of its
  title.
\<close>

theorem parse_count_invariant:
  "totalHighlights (parseClippings raw) =
     sum_list (map (\<lambda>b. length (highlights b)) (books (parseClippings raw)))
   \<and> distinct (map btitle (books (parseClippings raw)))
   \<and> (\<forall>b \<in> set (books (parseClippings raw)). \<forall>h \<in> set (highlights b). title h = btitle b)
   \<and> mset (concat (map highlights (books (parseClippings raw)))) = mset (parsedHighlights raw)"
  using bookMapFold_count [of "[]" "parsedHighlights raw"]
    bookMapFold_distinct [of "[]" "parsedHighlights raw"]
    bookMapFold_same_title [of "[]" "parsedHighlights raw"]
    bookMapFold_mset [of "[]" "parsedHighlights raw"]
  by (simp add: parseClippings_def bookMapValues_def Let_def)

lemma threeEntries_split:
  "split threeEntries SEPARATOR =
     [str ''A'' @ [10] @ str ''Your Note'' @ [10] @ str ''x'' @ [10],
      [10] @ str ''B'' @ [10] @ str ''Your Highlight'' @ [10] @ str ''y'' @ [10],
      [10] @ str ''A'' @ [10] @ str ''Your Bookmark'' @ [10],
      [10]]"
  by (simp add: threeEntries_def SEPARATOR_def str_def split_def splitFrom.simps)

lemma threeEntries_trim:
  "trim (str ''A'' @ [10] @ str ''Your Note'' @ [10] @ str ''x'' @ [10]) =
     str ''A'' @ [10] @ str ''Your Note'' @ [10] @ str ''x''"
  "trim ([10] @ str ''B'' @ [10] @ str ''Your Highlight'' @ [10] @ str ''y'' @ [10]) =
     str ''B'' @ [10] @ str ''Your Highlight'' @ [10] @ str ''y''"
  "trim ([10] @ str ''A'' @ [10] @ str ''Your Bookmark'' @ [10]) =
     str ''A'' @ [10] @ str ''Your Bookmark''"
  "trim [10] = []"
  by (simp_all add: str_def trim_def isWhiteSpace_def)

lemma threeEntries_parseEntry:
  "parseEntry (str ''A'' @ [10] @ str ''Your Note'' @ [10] @ str ''x'') =
     Some (plainHighlight (str ''A'') Note (str ''x''))"
  "parseEntry (str ''B'' @ [10] @ str ''Your Highlight'' @ [10] @ str ''y'') =
     Some (plainHighlight (str ''B'') Highlight (str ''y''))"
  "parseEntry (str ''A'' @ [10] @ str ''Your Bookmark'') =
     Some (plainHighlight (str ''A'') Bookmark [])"
  by (simp_all add: plainHighlight_def str_def parseEntry_def split_def
      splitFrom.simps trim_def isWhiteSpace_def matchTitleAuthor_def titleSplitAt_def
      isLineTerminator_def matchLocation_def digitRange_def isDigit_def matchPage_def
      matchDate_def canonicalize_def)

lemma threeEntries_parsed:
  "parsedHighlights threeEntries =
     [plainHighlight (str ''A'') Note (str ''x''), plainHighlight (str ''B'') Highlight (str ''y''),
      plainHighlight (str ''A'') Bookmark []]"
  unfolding parsedHighlights_def Let_def threeEntries_split
  by (simp add: threeEntries_trim threeEntries_parseEntry List.map_filter_simps del: append.simps)

theorem parse_count_invariant_witness:
  "totalHighlights (parseClippings threeEntries) = 3
   \<and> sum_list (map (\<lambda>b. length (highlights b)) (books (parseClippings threeEntries))) = 3
   \<and> map btitle (books (parseClippings threeEntries)) = [str ''A'', str ''B'']
   \<and> map (\<lambda>b. map type (highlights b)) (books (parseClippings threeEntries)) =
       [[Note, Bookmark], [Highlight]]"
  using parse_count_invariant [of threeEntries]
  by (simp add: parseClippings_def threeEntries_parsed bookMapValues_def plainHighlight_def str_def)

section \<open>Properties of the search\<close>









lemma subseq_filter_imp: "(\<And>x. P x \<Longrightarrow> Q x) \<Longrightarrow> subseq (filter P xs) (filter Q xs)"
  by (induction xs) auto

lemma subseq_concat_map:
  "(\<And>b. subseq (f b) (g b)) \<Longrightarrow> subseq (concat (map f bs)) (concat (map g bs))"
  by (induction bs) (simp_all add: list_emb_append_mono)

lemmas search_eval = searchHighlights_def booksToSearch_def given_def optIncludes_def
  typeSkipped_def isMatch_def truthy_def singleBook_def noSearchOptions_def plainHighlight_def
  toLowerCase_def lowerUnit_def wholeWordTest_def wholeWordAt_def wordBoundary_def isWordOpt_def
  headOpt_def literalAt_def canonicalize_def isWordChar_def isDigit_def str_def




text \<open>
  Claim C4 says that the whole-word search returns a part of what the plain search
  returns. The code breaks it where the two case foldings differ: the plain search
  compares lower-cased strings, the whole-word pattern compares canonical (upper-case)
  forms on top of that. Small sigma (963) and final sigma (962) are both lower case and
  share the capital (931). For the query \<open>[962]\<close> and the content \<open>a\<close>, sigma, \<open>a\<close>, the
  whole-word search returns the highlight and the plain search returns nothing.
\<close>

theorem wholeWord_sigma:
  "searchHighlights (singleBook [plainHighlight (str ''B'') Highlight [97, 963, 97]]) [962]
     (noSearchOptions\<lparr> wholeWord := Some True \<rparr>) =
     [plainHighlight (str ''B'') Highlight [97, 963, 97]]
   \<and> searchHighlights (singleBook [plainHighlight (str ''B'') Highlight [97, 963, 97]]) [962]
     noSearchOptions = []"
  by (simp add: search_eval)

lemma lowered_lowerUnit: "lowered (lowerUnit c)"
  by (simp add: lowered_def lowerUnit_def)

lemma canonicalize_ascii_inj:
  "lowered a \<Longrightarrow> lowered b \<Longrightarrow> b < 128 \<Longrightarrow> canonicalize a = canonicalize b \<Longrightarrow> a = b"
  by (simp add: lowered_def canonicalize_def split: if_splits) arith+

lemma literal_ascii:
  "list_all lowered r \<Longrightarrow> list_all (\<lambda>b. lowered b \<and> b < 128) q \<Longrightarrow>
   map canonicalize (take (length q) r) = map canonicalize q \<Longrightarrow> take (length q) r = q"
proof (induction q arbitrary: r)
  case Nil
  then show ?case by simp
next
  case (Cons b q)
  then obtain a r' where r: "r = a # r'" by (cases r) auto
  with Cons.prems have "canonicalize a = canonicalize b" "lowered a" "lowered b" "b < 128"
    by simp_all
  then have "a = b" using canonicalize_ascii_inj by blast
  moreover have "take (length q) r' = q"
    using Cons.prems r by (intro Cons.IH) simp_all
  ultimately show ?case by (simp add: r)
qed

lemma take_prefix: "take (length q) r = q \<Longrightarrow> prefix q r"
  by (metis take_is_prefix)

lemma wholeWordFrom_includes:
  assumes "\<And>r. list_all lowered' r \<Longrightarrow> literalAt ic q r \<Longrightarrow> take (length q) r = q"
    and "\<And>c cs. list_all lowered' (c # cs) \<Longrightarrow> list_all lowered' cs"
  shows "list_all lowered' s \<Longrightarrow> wholeWordFrom ic q prev s \<Longrightarrow> includesStr s q"
proof (induction s arbitrary: prev)
  case Nil
  then have "take (length q) [] = q" using assms(1) [of "[]"] by (simp add: wholeWordAt_def)
  then show ?case by simp
next
  case (Cons c cs)
  show ?case
  proof (cases "wholeWordAt ic q prev (c # cs)")
    case True
    then have "take (length q) (c # cs) = q"
      using assms(1) [OF Cons.prems(1)] by (simp add: wholeWordAt_def)
    then have "prefix q (c # cs)" by (rule take_prefix)
    then show ?thesis by simp
  next
    case False
    with Cons.prems have "wholeWordFrom ic q (Some c) cs" by simp
    moreover have "list_all lowered' cs" using Cons.prems(1) by simp
    ultimately show ?thesis using Cons.IH by simp
  qed
qed

lemma wholeWord_isMatch:
  assumes "truthy (caseSensitive options) \<or> list_all (\<lambda>c. c < 128) query"
    and "isMatch (options\<lparr> wholeWord := Some True \<rparr>) query h"
  shows "isMatch (options\<lparr> wholeWord := None \<rparr>) query h"
proof (cases "truthy (caseSensitive options)")
  case True
  have "includesStr (content h) query"
    if "wholeWordFrom False query None (content h)"
    using that
    by (intro wholeWordFrom_includes [where lowered' = "\<lambda>_. True" and ic = False and prev = None])
       (simp_all add: literalAt_def list_all_iff)
  with True assms(2) show ?thesis
    by (simp add: isMatch_def truthy_def wholeWordTest_def)
next
  case False
  with assms(1) have a: "list_all (\<lambda>c. c < 128) query" by simp
  have lq: "list_all (\<lambda>b. lowered b \<and> b < 128) (toLowerCase query)"
    using a by (induction query) (auto simp: toLowerCase_def lowered_def lowerUnit_def)
  have lc: "list_all lowered (toLowerCase (content h))"
    by (simp add: toLowerCase_def list_all_iff lowered_lowerUnit)
  have "includesStr (toLowerCase (content h)) (toLowerCase query)"
    if "wholeWordFrom True (toLowerCase query) None (toLowerCase (content h))"
    using lc that
    by (intro wholeWordFrom_includes [where lowered' = lowered and ic = True and prev = None])
       (simp_all add: literalAt_def literal_ascii [OF _ lq])
  with False assms(2) show ?thesis
    by (simp add: isMatch_def truthy_def wholeWordTest_def)
qed

text \<open>
  Where the two foldings agree the property of claim C4 holds: in a case-sensitive
  search, and for a query of code units below 128, the whole-word search returns a
  subsequence of what the plain search returns.
\<close>

theorem wholeWord_monotone:
  assumes "truthy (caseSensitive options) \<or> list_all (\<lambda>c. c < 128) query"
  shows "subseq (searchHighlights library query (options\<lparr> wholeWord := Some True \<rparr>))
                (searchHighlights library query (options\<lparr> wholeWord := None \<rparr>))"
proof -
  have b: "booksToSearch library (options\<lparr> wholeWord := Some True \<rparr>) =
           booksToSearch library (options\<lparr> wholeWord := None \<rparr>)"
    by (simp add: booksToSearch_def Let_def cong: if_cong)
  have t: "typeSkipped (options\<lparr> wholeWord := Some True \<rparr>) h =
           typeSkipped (options\<lparr> wholeWord := None \<rparr>) h" for h
    by (simp add: typeSkipped_def)
  show ?thesis
    unfolding searchHighlights_def b
    by (intro subseq_concat_map subseq_filter_imp) (simp add: t wholeWord_isMatch [OF assms])
qed

theorem wholeWord_monotone_witness:
  "searchHighlights
     (singleBook [plainHighlight (str ''B'') Highlight (str ''A cat sat''),
                  plainHighlight (str ''B'') Note (str ''concatenate'')])
     (str ''CAT'') (noSearchOptions\<lparr> wholeWord := Some True \<rparr>) =
     [plainHighlight (str ''B'') Highlight (str ''A cat sat'')]
   \<and> searchHighlights
     (singleBook [plainHighlight (str ''B'') Highlight (str ''A cat sat''),
                  plainHighlight (str ''B'') Note (str ''concatenate'')])
     (str ''CAT'') (noSearchOptions\<lparr> wholeWord := None \<rparr>) =
     [plainHighlight (str ''B'') Highlight (str ''A cat sat''),
      plainHighlight (str ''B'') Note (str ''concatenate'')]"
  using wholeWord_monotone [of noSearchOptions "str ''CAT''"
      "singleBook [plainHighlight (str ''B'') Highlight (str ''A cat sat''),
                  plainHighlight (str ''B'') Note (str ''concatenate'')]"]
  by (simp add: search_eval)

section \<open>Properties of the tagging\<close>

lemma tagLoop_distinct: "distinct ts \<Longrightarrow> distinct (tagLoop c ts entries)"
proof (induction entries arbitrary: ts)
  case Nil
  then show ?case by simp
next
  case (Cons e entries)
  obtain tag kws where e: "e = (tag, kws)" by (cases e)
  define ts' where "ts' =
    (if list_ex (\<lambda>keyword. includesStr c (toLowerCase keyword)) kws
     then (if tag \<in> set ts then ts else ts @ [tag]) else ts)"
  have "distinct ts'" using Cons.prems by (simp add: ts'_def)
  then have "distinct (tagLoop c ts' entries)" by (rule Cons.IH)
  then show ?case by (simp add: e ts'_def)
qed

lemma autoTagHighlight_idem:
  "autoTagHighlight entries (autoTagHighlight entries h) = autoTagHighlight entries h"
  by (cases "tagLoop (toLowerCase (content h)) [] entries = []")
     (simp_all add: autoTagHighlight_def)

lemma autoTagHighlight_tags:
  "(if tags h = [] then distinct (tags (autoTagHighlight entries h))
    else autoTagHighlight entries h = h)"
  by (simp add: autoTagHighlight_def tagLoop_distinct)

lemma autoTagHighlight_frame:
  "(autoTagHighlight entries h)\<lparr> tags := tags h \<rparr> = h"
  by (simp add: autoTagHighlight_def)

lemma defaultEntries: "objectEntries (allTags []) = defaultTags"
  by (simp add: objectEntries_def allTags_def spread_def defaultTags_def isArrayIndex_def str_def
      isDigit_def)

lemma taggingLibrary_tagged:
  "autoTagHighlights taggingLibrary [] =
     singleBook
       [(plainHighlight (str ''B'') Highlight (str ''Democracy is defined as rule by the people''))
          \<lparr> tags := [str ''definition''] \<rparr>,
        (plainHighlight (str ''B'') Note (str ''An example''))\<lparr> tags := [str ''mine''] \<rparr>]"
  by (simp add: autoTagHighlights_def defaultEntries taggingLibrary_def singleBook_def
      autoTagHighlight_def plainHighlight_def)
     (simp add: defaultTags_def str_def toLowerCase_def lowerUnit_def)

text \<open>
  Claim C3. \<open>autoTagHighlights\<close> is idempotent: for every library and every table of
  custom tags, a second run with the same table changes nothing. Moreover a highlight
  that had no tag gets pairwise different tags, and a highlight that had a tag is left
  as it was.
\<close>

theorem autoTag_idempotent:
  "autoTagHighlights (autoTagHighlights L customTags) customTags = autoTagHighlights L customTags
   \<and> list_all2 (\<lambda>b b'. list_all2 (\<lambda>h h'. if tags h = [] then distinct (tags h') else h' = h)
                                   (highlights b) (highlights b'))
        (books L) (books (autoTagHighlights L customTags))"
proof
  show "autoTagHighlights (autoTagHighlights L customTags) customTags =
          autoTagHighlights L customTags"
    by (simp add: autoTagHighlights_def autoTagHighlight_idem comp_def)
  show "list_all2 (\<lambda>b b'. list_all2 (\<lambda>h h'. if tags h = [] then distinct (tags h') else h' = h)
                                   (highlights b) (highlights b'))
        (books L) (books (autoTagHighlights L customTags))"
    using autoTagHighlight_tags
    by (simp add: autoTagHighlights_def list_all2_map2 list_all2_same)
qed

theorem autoTag_idempotent_witness:
  "autoTagHighlights (autoTagHighlights taggingLibrary []) [] = autoTagHighlights taggingLibrary []
   \<and> map (\<lambda>b. map tags (highlights b)) (books (autoTagHighlights taggingLibrary [])) =
       [[[str ''definition''], [str ''mine'']]]"
  using autoTag_idempotent [of taggingLibrary "[]"]
  by (simp add: taggingLibrary_tagged singleBook_def)

text \<open>Scenario 4: with the default table the content \<open>Democracy is defined as rule by
  the people\<close> gets the tag \<open>definition\<close>, and no other.\<close>

theorem autoTag_scenario4:
  "map (\<lambda>b. map tags (highlights b))
     (books (autoTagHighlights
        (singleBook [plainHighlight (str ''B'') Highlight
                       (str ''Democracy is defined as rule by the people'')]) [])) =
   [[[str ''definition'']]]"
  by (simp add: autoTagHighlights_def defaultEntries singleBook_def autoTagHighlight_def
      plainHighlight_def)
     (simp add: defaultTags_def str_def toLowerCase_def lowerUnit_def)

text \<open>In the program over values, too, \<open>autoTagHighlights\<close> changes nothing but tags.\<close>

lemma autoTag_value_frame:
  "list_all2 (\<lambda>b b'. btitle b' = btitle b \<and> bauthor b' = bauthor b \<and>
                list_all2 (\<lambda>h h'. h'\<lparr> tags := tags h \<rparr> = h) (highlights b) (highlights b'))
     (books L) (books (autoTagHighlights L customTags))
   \<and> totalHighlights (autoTagHighlights L customTags) = totalHighlights L
   \<and> lastUpdated (autoTagHighlights L customTags) = lastUpdated L"
  by (simp add: autoTagHighlights_def list_all2_map2 list_all2_same autoTagHighlight_frame)

section \<open>Properties of the summary\<close>

lemma chapterLoop_result:
  assumes "chapterLoop i step s chapters = Some r"
  shows "\<not> (step = 0 \<and> i < length s)"
proof (rule chapterLoop.raw_induct
    [where P = "\<lambda>i step s chapters r. \<not> (step = 0 \<and> i < length s)", OF _ assms])
  fix loop :: "nat \<Rightarrow> nat \<Rightarrow> highlight list \<Rightarrow> highlight list list \<Rightarrow> highlight list list option"
  fix i step s chapters r
  assume IH: "\<And>i step s chapters r. loop i step s chapters = Some r \<Longrightarrow>
                \<not> (step = 0 \<and> i < length s)"
  assume eq: "(if i < length s
               then loop (i + step) step s (chapters @ [slice s i (i + step)])
               else Some chapters) = Some r"
  show "\<not> (step = 0 \<and> i < length s)"
  proof
    assume z: "step = 0 \<and> i < length s"
    with eq have "loop i 0 s (chapters @ [slice s i i]) = Some r" by simp
    from IH [OF this] z show False by simp
  qed
qed

lemma chapterLoop_zero_step: "i < length s \<Longrightarrow> chapterLoop i 0 s chapters = None"
  using chapterLoop_result [of i 0 s chapters] by (cases "chapterLoop i 0 s chapters") auto

lemma length_insertBy: "length (insertBy cmp x ys) = Suc (length ys)"
  by (induction ys) simp_all

lemma length_sortBy: "length (sortBy cmp xs) = length xs"
  by (induction xs) (simp_all add: sortBy_def length_insertBy)

text \<open>
  Claim C2 says that \<open>createBookSummary\<close> returns a summary for every book, those with
  one to four highlights included, the zero step being guarded. The code has no guard:
  for such a book \<open>chapterBreakpoint\<close> is 0, the loop never leaves \<open>i = 0\<close>, and no
  summary comes back.
\<close>

theorem small_book_no_summary:
  "0 < length (highlights book) \<Longrightarrow> length (highlights book) < 5 \<Longrightarrow>
   createBookSummary book = None"
  by (simp add: createBookSummary_def Let_def length_sortBy chapterLoop_zero_step)

theorem small_book_no_summary_witness:
  "createBookSummary
     \<lparr> btitle = str ''B'', bauthor = None,
       highlights = [plainHighlight (str ''B'') Highlight (str ''abc'')] \<rparr> = None"
  using small_book_no_summary
    [of "\<lparr> btitle = str ''B'', bauthor = None,
           highlights = [plainHighlight (str ''B'') Highlight (str ''abc'')] \<rparr>"]
  by simp

text \<open>With five highlights or more the step is positive and the loop ends.\<close>

lemma chapterLoop_returns:
  "0 < step \<Longrightarrow> \<exists>r. chapterLoop i step s chapters = Some r"
proof (induction "length s - i" arbitrary: i chapters rule: less_induct)
  case less
  show ?case
  proof (cases "i < length s")
    case True
    then have "length s - (i + step) < length s - i" using less.prems by simp
    from less.hyps [OF this less.prems] show ?thesis
      using True by (subst chapterLoop.simps) simp
  next
    case False
    then show ?thesis by (subst chapterLoop.simps) simp
  qed
qed

theorem large_book_summary:
  "5 \<le> length (highlights book) \<Longrightarrow> \<exists>text. createBookSummary book = Some text"
proof -
  assume a: "5 \<le> length (highlights book)"
  then have "0 < length (sortBy compareLocation (highlights book)) div 5"
    by (simp add: length_sortBy div_greater_zero_iff)
  from chapterLoop_returns [OF this, of 0 "sortBy compareLocation (highlights book)" "[]"]
  obtain r where "chapterLoop 0 (length (sortBy compareLocation (highlights book)) div 5)
       (sortBy compareLocation (highlights book)) [] = Some r" by blast
  then show ?thesis using a
    by (simp add: createBookSummary_def Let_def)
qed

theorem large_book_summary_witness:
  "createBookSummary fiveHighlights =
     Some (str ''# Summary of '' @ [34] @ str ''B'' @ [34] @ [10, 10] @
           str ''## Key Highlights'' @ [10, 10] @
           str ''### Section 1'' @ [10, 10] @ str ''- c'' @ [10, 10] @
           str ''### Section 2'' @ [10, 10] @ str ''- a'' @ [10, 10] @
           str ''### Section 3'' @ [10, 10, 10] @
           str ''### Section 4'' @ [10, 10] @ str ''- b'' @ [10, 10] @
           str ''### Section 5'' @ [10, 10] @ str ''- d'' @ [10, 10])"
  using large_book_summary [of fiveHighlights]
  by (simp add: fiveHighlights_def createBookSummary_def sortBy_def compareLocation_def
      locationNumber_def parseInt_def plainHighlight_def split_def splitFrom.simps str_def
      isWhiteSpace_def isRadixDigit_def digitValue_def chapterLoop.simps slice_def
      chapterText_def decimal.simps present_def)

section \<open>Properties of the export\<close>

text \<open>
  Claim C6. For every library and all options, \<open>exportHighlights\<close> with a format other
  than \<open>markdown\<close>, \<open>csv\<close> and \<open>json\<close> ends with an error whose message is
  \<open>Unsupported export format: \<close> followed by the format; it returns no text and takes
  no other format's branch.
\<close>

theorem export_unsupported_format:
  "format \<noteq> str ''markdown'' \<Longrightarrow> format \<noteq> str ''csv'' \<Longrightarrow> format \<noteq> str ''json'' \<Longrightarrow>
   exportHighlights P library format options =
     Inl (Error (str ''Unsupported export format: '' @ format))"
  by (simp add: exportHighlights_def)

theorem export_unsupported_format_witness:
  "exportHighlights noPlatform (singleBook [plainHighlight (str ''B'') Highlight (str ''abc'')])
     (str ''weird'') noExportOptions =
   Inl (Error (str ''Unsupported export format: weird''))"
  using export_unsupported_format [of "str ''weird''" noPlatform
      "singleBook [plainHighlight (str ''B'') Highlight (str ''abc'')]" noExportOptions]
  by (simp add: str_def)

text \<open>Scenario 3: in the CSV export the content \<open>He said "hello"\<close> is written between
  double quotes with its own double quotes doubled.\<close>

theorem csv_scenario3:
  "exportHighlights fixedDatePlatform
     (singleBook [plainHighlight (str ''B'') Highlight (str ''He said '' @ [34] @ str ''hello'' @ [34])])
     (str ''csv'') noExportOptions =
   Inr (str ''Book Title,Author,Content,Location,Page,Date Added,Type,Tags'' @ [10] @
        [34] @ str ''B'' @ [34] @ str '',,'' @
        [34] @ str ''He said '' @ [34, 34] @ str ''hello'' @ [34, 34] @ [34] @
        str '',unknown,,2024-01-01T10:00:00.000Z,highlight,'' @ [34, 34] @ [10])"
  by (simp add: exportHighlights_def booksToExport_def noExportOptions_def given_def
      singleBook_def exportToCsv_def csvRow_def fixedDatePlatform_def plainHighlight_def
      present_def orEmpty_def typeName_def doubleQuotes_def newlinesToSpaces_def str_def)

section \<open>Properties of the flashcards\<close>

lemma not_ws: "\<not> isWhiteSpace 105" "\<not> isWhiteSpace 97" "isWhiteSpace 32"
  by (simp_all add: isWhiteSpace_def)

lemma prefix_is_match: "prefix (str '' is '') r \<Longrightarrow> isAreAt r \<noteq> None"
  by (auto simp: prefix_def str_def isAreAt_def spacedWordAt_def not_ws)

lemma prefix_are_match: "prefix (str '' are '') r \<Longrightarrow> isAreAt r \<noteq> None"
  by (auto simp: prefix_def str_def isAreAt_def spacedWordAt_def not_ws)

lemma includes_hasMatch:
  "includesStr s (str '' is '') \<or> includesStr s (str '' are '') \<Longrightarrow> hasMatch s"
proof (induction s)
  case Nil
  then show ?case by (simp add: str_def)
next
  case (Cons c cs)
  then show ?case
    using prefix_is_match [of "c # cs"] prefix_are_match [of "c # cs"] by auto
qed

lemma splitIsAre_nonempty: "splitIsAre cur s \<noteq> []"
  by (induction cur s rule: splitIsAre.induct) (auto split: option.splits)

lemma splitIsAre_length: "hasMatch s \<Longrightarrow> 2 \<le> length (splitIsAre cur s)"
proof (induction cur s rule: splitIsAre.induct)
  case (1 cur)
  then show ?case by simp
next
  case (2 cur c cs)
  show ?case
  proof (cases "isAreAt (c # cs)")
    case None
    with 2 show ?thesis by simp
  next
    case (Some n)
    have "1 \<le> length (splitIsAre [] (drop n (c # cs)))"
      using splitIsAre_nonempty [of "[]" "drop n (c # cs)"]
      by (cases "splitIsAre [] (drop n (c # cs))") simp_all
    with Some show ?thesis by simp
  qed
qed

lemma splitIsAre_head: "splitIsAre cur s ! 0 = rev cur @ beforeMatch s"
  by (induction cur s rule: splitIsAre.induct) (auto split: option.splits)

lemma makeQuestion_isAre:
  "includesStr (content h) (str '' is '') \<or> includesStr (content h) (str '' are '') \<Longrightarrow>
   makeQuestion h = str ''What is '' @ trim (beforeMatch (content h)) @ str ''?''"
  using splitIsAre_length [OF includes_hasMatch, of "content h" "[]"]
  by (simp add: makeQuestion_def Let_def splitIsAre_head)

lemma makeCard_isAre:
  assumes "includesStr (content h) (str '' is '') \<or> includesStr (content h) (str '' are '')"
    and "5 \<le> length (split (content h) [32])"
    and "passesOnlyTagged options h"
  shows "makeCard options book h =
     Some \<lparr> question = str ''What is '' @ trim (beforeMatch (content h)) @ str ''?'',
            answer = content h,
            source = btitle book @
              (if present (bauthor book) then str '' by '' @ orEmpty (bauthor book) else []) \<rparr>"
proof -
  have "str ''What is '' @ trim (beforeMatch (content h)) @ str ''?'' \<noteq> []"
    by (simp add: str_def)
  then show ?thesis
    using assms(2,3)
    by (auto simp add: makeCard_def Let_def makeQuestion_isAre [OF assms(1)] passesOnlyTagged_def
        simp del: append_is_Nil_conv)
qed

lemma highlightLoop_unbounded:
  "maxCards options = None \<Longrightarrow>
   highlightLoop options book cards hs = cards @ List.map_filter (makeCard options book) hs"
  by (induction hs arbitrary: cards)
     (simp_all add: limitReached_def List.map_filter_simps split: option.splits)

lemma bookLoop_unbounded:
  "maxCards options = None \<Longrightarrow>
   bookLoop options cards bs =
     cards @ concat (map (\<lambda>b. List.map_filter (makeCard options b) (highlights b)) bs)"
  by (induction bs arbitrary: cards)
     (simp_all add: limitReached_def Let_def highlightLoop_unbounded)

lemma card_in_flashcards:
  assumes "maxCards options = None" "b \<in> set (books library)" "h \<in> set (highlights b)"
    "makeCard options b h = Some c"
  shows "c \<in> set (createFlashcards library options)"
proof -
  have "c \<in> set (List.map_filter (makeCard options b) (highlights b))"
    using assms(3,4) by (force simp: List.map_filter_def)
  then show ?thesis
    using assms(1,2) by (auto simp: createFlashcards_def bookLoop_unbounded)
qed

lemma isAreAt_head_ws: "isAreAt (c # cs) \<noteq> None \<Longrightarrow> isWhiteSpace c"
  by (auto simp: isAreAt_def spacedWordAt_def Let_def split: option.splits if_splits)

lemma spacedWordAt_skip:
  "isWhiteSpace d \<Longrightarrow> spacedWordAt w (32 # d # ds) = Some n \<Longrightarrow>
   \<exists>m. spacedWordAt w (d # ds) = Some m"
  by (auto simp: spacedWordAt_def Let_def not_ws split: if_splits)

lemma isAreAt_skip:
  "isWhiteSpace d \<Longrightarrow> isAreAt (32 # d # ds) \<noteq> None \<Longrightarrow> isAreAt (d # ds) \<noteq> None"
  unfolding isAreAt_def
  by (auto split: option.splits dest: spacedWordAt_skip)

lemma spacedWordAt_is_tight:
  "\<not> isWhiteSpace d \<Longrightarrow> spacesOnly (d # ds) \<Longrightarrow>
   spacedWordAt (str ''is'') (32 # d # ds) = Some n \<Longrightarrow> prefix (str '' is '') (32 # d # ds)"
  apply (cases ds)
   apply (simp add: spacedWordAt_def Let_def not_ws str_def split: if_splits)
  subgoal for e es
    apply (cases es)
     apply (simp add: spacedWordAt_def Let_def not_ws str_def split: if_splits)
    apply (auto simp add: spacedWordAt_def Let_def not_ws str_def spacesOnly_def split: if_splits)
    done
  done

lemma spacedWordAt_are_tight:
  "\<not> isWhiteSpace d \<Longrightarrow> spacesOnly (d # ds) \<Longrightarrow>
   spacedWordAt (str ''are'') (32 # d # ds) = Some n \<Longrightarrow> prefix (str '' are '') (32 # d # ds)"
  apply (cases ds)
   apply (simp add: spacedWordAt_def Let_def not_ws str_def split: if_splits)
  subgoal for e es
    apply (cases es)
     apply (simp add: spacedWordAt_def Let_def not_ws str_def split: if_splits)
    subgoal for f fs
      apply (cases fs)
       apply (simp add: spacedWordAt_def Let_def not_ws str_def split: if_splits)
      apply (auto simp add: spacedWordAt_def Let_def not_ws str_def spacesOnly_def split: if_splits)
      done
    done
  done

lemma isAreAt_tight:
  assumes "\<not> isWhiteSpace d" "spacesOnly (d # ds)" "isAreAt (32 # d # ds) \<noteq> None"
  shows "prefix (str '' is '') (32 # d # ds) \<or> prefix (str '' are '') (32 # d # ds)"
proof (cases "spacedWordAt (str ''is'') (32 # d # ds)")
  case (Some n)
  from spacedWordAt_is_tight [OF assms(1,2) this] show ?thesis by simp
next
  case None
  with assms(3) obtain n where "spacedWordAt (str ''are'') (32 # d # ds) = Some n"
    by (auto simp: isAreAt_def)
  from spacedWordAt_are_tight [OF assms(1,2) this] show ?thesis by simp
qed

lemma isAreAt_single: "isAreAt [c] = None"
  by (auto simp: isAreAt_def spacedWordAt_def Let_def str_def split: option.splits)

lemma before_spaces:
  "spacesOnly s \<Longrightarrow> \<exists>k. beforeIsAre s = beforeMatch s @ replicate k 32"
proof (induction s)
  case Nil
  then show ?case by simp
next
  case (Cons c cs)
  from Cons.prems have so: "spacesOnly cs" by (simp add: spacesOnly_def)
  from Cons.IH [OF so] obtain k where k: "beforeIsAre cs = beforeMatch cs @ replicate k 32" ..
  show ?case
  proof (cases "isAreAt (c # cs) = None")
    case True
    then have "\<not> prefix (str '' is '') (c # cs)" "\<not> prefix (str '' are '') (c # cs)"
      using prefix_is_match [of "c # cs"] prefix_are_match [of "c # cs"] by auto
    with True k show ?thesis by simp
  next
    case False
    then have "isWhiteSpace c" by (rule isAreAt_head_ws)
    with Cons.prems have c: "c = 32" by (simp add: spacesOnly_def)
    from False obtain d ds where cs: "cs = d # ds"
      using isAreAt_single [of c] by (cases cs) auto
    show ?thesis
    proof (cases "isWhiteSpace d")
      case True
      with so cs have d: "d = 32" by (simp add: spacesOnly_def)
      from isAreAt_skip [OF True] False have m: "isAreAt cs \<noteq> None" by (simp add: c cs)
      have "\<not> prefix (str '' is '') (c # cs)" "\<not> prefix (str '' are '') (c # cs)"
        by (simp_all add: c cs d str_def)
      moreover from m have "beforeMatch cs = []" by (simp add: cs)
      ultimately have "beforeIsAre (c # cs) = beforeMatch (c # cs) @ replicate (Suc k) 32"
        using False k by (simp add: c)
      then show ?thesis ..
    next
      case nws: False
      from isAreAt_tight [OF nws] so False
      have "prefix (str '' is '') (c # cs) \<or> prefix (str '' are '') (c # cs)"
        by (simp add: c cs)
      then have "beforeIsAre (c # cs) = beforeMatch (c # cs) @ replicate 0 32"
        using False by auto
      then show ?thesis ..
    qed
  qed
qed

lemma dropWhile_spaces_front:
  "dropWhile isWhiteSpace (replicate k 32 @ y) = dropWhile isWhiteSpace y"
  by (induction k) (simp_all add: not_ws)

lemma trim_spaces: "trim (x @ replicate k 32) = trim x"
proof (cases "\<forall>u \<in> set x. isWhiteSpace u")
  case True
  then have "\<forall>u \<in> set (x @ replicate k 32). isWhiteSpace u"
    by (auto simp: not_ws)
  then have "dropWhile isWhiteSpace (x @ replicate k 32) = []"
    by (simp only: dropWhile_eq_Nil_conv)
  moreover from True have "dropWhile isWhiteSpace x = []"
    by (simp only: dropWhile_eq_Nil_conv)
  ultimately show ?thesis by (simp only: trim_def)
next
  case False
  then have "dropWhile isWhiteSpace (x @ replicate k 32) = dropWhile isWhiteSpace x @ replicate k 32"
    by (auto simp: dropWhile_append1)
  then have "trim (x @ replicate k 32) =
      rev (dropWhile isWhiteSpace (replicate k 32 @ rev (dropWhile isWhiteSpace x)))"
    by (simp add: trim_def)
  then show ?thesis
    by (simp only: dropWhile_spaces_front trim_def)
qed

lemma before_trim: "spacesOnly s \<Longrightarrow> trim (beforeIsAre s) = trim (beforeMatch s)"
  using before_spaces [of s] trim_spaces by auto

lemmas card_eval = createFlashcards_def makeCard_def given_def split_def splitFrom.simps
  makeQuestion_def isAreAt_def spacedWordAt_def isWhiteSpace_def trim_def limitReached_def
  present_def orEmpty_def singleBook_def plainHighlight_def noFlashcardOptions_def str_def

text \<open>
  Claim C8, amended. Take a highlight of the library whose content has \<open>" is "\<close> or
  \<open>" are "\<close> and at least five tokens between spaces, which \<open>onlyTagged\<close> lets through,
  and let no \<open>maxCards\<close> be set. Then \<open>createFlashcards\<close> has a card whose question is
  \<open>What is \<close>, the trimmed text before the leftmost \<open>is\<close> or \<open>are\<close> that has white space
  on both sides (the white space not included), and a question mark, and whose answer
  is the content. When the content has no white space but spaces, that text is the
  trimmed text before the first \<open>" is "\<close> or \<open>" are "\<close>.
\<close>

theorem flashcard_rule_one:
  assumes "b \<in> set (books library)" and "h \<in> set (highlights b)"
    and "includesStr (content h) (str '' is '') \<or> includesStr (content h) (str '' are '')"
    and "5 \<le> length (split (content h) [32])"
    and "passesOnlyTagged options h" and "maxCards options = None"
  shows "\<exists>c \<in> set (createFlashcards library options).
           question c = str ''What is '' @ trim (beforeMatch (content h)) @ str ''?''
           \<and> (if spacesOnly (content h)
              then question c = str ''What is '' @ trim (beforeIsAre (content h)) @ str ''?''
              else True)
           \<and> answer c = content h"
proof -
  let ?c = "\<lparr> question = str ''What is '' @ trim (beforeMatch (content h)) @ str ''?'',
            answer = content h,
            source = btitle b @
              (if present (bauthor b) then str '' by '' @ orEmpty (bauthor b) else []) \<rparr>"
  have "makeCard options b h = Some ?c"
    using assms(3,4,5) by (rule makeCard_isAre)
  with assms(6,1,2) have "?c \<in> set (createFlashcards library options)"
    by (rule card_in_flashcards)
  moreover have "question ?c = str ''What is '' @ trim (beforeMatch (content h)) @ str ''?''"
    by simp
  moreover have "if spacesOnly (content h)
      then question ?c = str ''What is '' @ trim (beforeIsAre (content h)) @ str ''?'' else True"
    by (simp add: before_trim)
  moreover have "answer ?c = content h" by simp
  ultimately show ?thesis by blast
qed

lemma gravity_cards:
  "createFlashcards (singleBook [plainHighlight (str ''B'') Highlight gravityContent])
     noFlashcardOptions =
   [\<lparr> question = str ''What is Gravity?'', answer = gravityContent, source = str ''B'' \<rparr>]"
  by (simp add: gravityContent_def card_eval)

lemma sky_cards:
  "createFlashcards (singleBook [plainHighlight (str ''B'') Highlight skyContent])
     noFlashcardOptions =
   [\<lparr> question = str ''What is The sky?'', answer = skyContent, source = str ''B'' \<rparr>]"
  by (simp add: skyContent_def card_eval)

lemma sky_spec: "trim (beforeIsAre skyContent) = str ''The sky'' @ [10] @ str ''is blue and grass''"
  by (simp add: skyContent_def str_def trim_def isWhiteSpace_def)

lemma gravity_facts:
  "includesStr gravityContent (str '' is '')"
  "5 \<le> length (split gravityContent [32])"
  "trim (beforeMatch gravityContent) = str ''Gravity''"
  "spacesOnly gravityContent"
  by (simp_all add: gravityContent_def str_def split_def splitFrom.simps isAreAt_def
      spacedWordAt_def isWhiteSpace_def trim_def spacesOnly_def)

theorem flashcard_rule_one_witness:
  "\<exists>c \<in> set (createFlashcards (singleBook [plainHighlight (str ''B'') Highlight gravityContent])
                 noFlashcardOptions).
      question c = str ''What is Gravity?'' \<and> answer c = gravityContent"
proof -
  let ?h = "plainHighlight (str ''B'') Highlight gravityContent"
  let ?b = "\<lparr> btitle = str ''B'', bauthor = None, highlights = [?h] \<rparr>"
  have c: "content ?h = gravityContent" by (simp add: plainHighlight_def)
  have "\<exists>c \<in> set (createFlashcards (singleBook [?h]) noFlashcardOptions).
           question c = str ''What is '' @ trim (beforeMatch (content ?h)) @ str ''?''
           \<and> (if spacesOnly (content ?h)
              then question c = str ''What is '' @ trim (beforeIsAre (content ?h)) @ str ''?''
              else True)
           \<and> answer c = content ?h"
  proof (rule flashcard_rule_one [of ?b])
    show "?b \<in> set (books (singleBook [?h]))" by (simp add: singleBook_def)
    show "?h \<in> set (highlights ?b)" by simp
    show "includesStr (content ?h) (str '' is '') \<or> includesStr (content ?h) (str '' are '')"
      by (simp only: c gravity_facts(1) simp_thms)
    show "5 \<le> length (split (content ?h) [32])" by (simp only: c gravity_facts(2))
    show "passesOnlyTagged noFlashcardOptions ?h"
      by (simp add: passesOnlyTagged_def noFlashcardOptions_def given_def)
    show "maxCards noFlashcardOptions = None" by (simp add: noFlashcardOptions_def)
  qed
  then show ?thesis
    by (simp only: c gravity_facts(3)) (auto simp add: str_def)
qed

text \<open>
  Claim C8, as stated: the question holds the text before the first \<open>" is "\<close> or
  \<open>" are "\<close>. It fails when an \<open>is\<close> comes earlier after a line break: the pattern of the
  code splits at any white space.
\<close>

theorem flashcard_rule_one_counterexample:
  "includesStr skyContent (str '' is '')
   \<and> 5 \<le> length (split skyContent [32])
   \<and> map question (createFlashcards (singleBook [plainHighlight (str ''B'') Highlight skyContent])
                     noFlashcardOptions) = [str ''What is The sky?'']
   \<and> str ''What is The sky?'' \<noteq> str ''What is '' @ trim (beforeIsAre skyContent) @ str ''?''"
  by (simp add: sky_cards sky_spec)
     (simp add: skyContent_def str_def split_def splitFrom.simps)

section \<open>Empty lists in the options\<close>

lemma makeCard_onlyTagged:
  "makeCard (options\<lparr> onlyTagged := Some [] \<rparr>) = makeCard (options\<lparr> onlyTagged := None \<rparr>)"
  by (intro ext) (simp add: makeCard_def given_def)

lemma highlightLoop_cong:
  "makeCard o1 = makeCard o2 \<Longrightarrow> maxCards o1 = maxCards o2 \<Longrightarrow>
   highlightLoop o1 book cards hs = highlightLoop o2 book cards hs"
  by (induction hs arbitrary: cards) (simp_all add: limitReached_def split: option.splits)

lemma bookLoop_cong:
  "makeCard o1 = makeCard o2 \<Longrightarrow> maxCards o1 = maxCards o2 \<Longrightarrow>
   bookLoop o1 cards bs = bookLoop o2 cards bs"
  by (induction bs arbitrary: cards)
     (simp_all add: limitReached_def Let_def highlightLoop_cong [of o1 o2])

lemma isMatch_options:
  "isMatch (so\<lparr> includeBooks := a, excludeBooks := b, highlightTypes := c \<rparr>) query =
   isMatch so query"
  by (intro ext) (simp add: isMatch_def)

lemma makeCard_cardFor: "makeCard (options\<lparr> onlyTagged := Some [] \<rparr>) book h = cardFor book h"
  by (simp add: makeCard_def cardFor_def given_def Let_def)

lemma csv_row_abc:
  "exportToCsv fixedDatePlatform
     (books (singleBook [plainHighlight (str ''B'') Highlight (str ''abc'')])) =
   Inr (str ''Book Title,Author,Content,Location,Page,Date Added,Type,Tags'' @ [10] @
        [34] @ str ''B'' @ [34] @ str '',,'' @ [34] @ str ''abc'' @ [34] @
        str '',unknown,,2024-01-01T10:00:00.000Z,highlight,'' @ [34, 34] @ [10])"
  by (simp add: singleBook_def exportToCsv_def csvRow_def fixedDatePlatform_def
      plainHighlight_def present_def orEmpty_def typeName_def doubleQuotes_def
      newlinesToSpaces_def str_def)

text \<open>
  Claim C10. An empty array for \<open>includeBooks\<close>, \<open>excludeBooks\<close> or \<open>highlightTypes\<close> of
  the search, for \<open>includeBooks\<close> or \<open>includeTags\<close> of the export, or for \<open>onlyTagged\<close>
  of the flashcards gives the result that leaving the option out gives, whatever the
  other options are. That result is the unrestricted one. With empty lists of books
  every book of the library is searched, and with an empty list of types as well the
  search returns every highlight of the library that the query matches. With empty lists
  of books and tags every book is exported with all its highlights, in each format. With
  an empty \<open>onlyTagged\<close> no highlight is held back for its tags, and without \<open>maxCards\<close>
  the flashcards are the cards of all highlights of all books.
\<close>

theorem empty_list_is_no_restriction:
  "searchHighlights library query (so\<lparr> includeBooks := Some [] \<rparr>) =
     searchHighlights library query (so\<lparr> includeBooks := None \<rparr>)
   \<and> searchHighlights library query (so\<lparr> excludeBooks := Some [] \<rparr>) =
     searchHighlights library query (so\<lparr> excludeBooks := None \<rparr>)
   \<and> searchHighlights library query (so\<lparr> highlightTypes := Some [] \<rparr>) =
     searchHighlights library query (so\<lparr> highlightTypes := None \<rparr>)
   \<and> exportHighlights P library format (eo\<lparr> exportIncludeBooks := Some [] \<rparr>) =
     exportHighlights P library format (eo\<lparr> exportIncludeBooks := None \<rparr>)
   \<and> exportHighlights P library format (eo\<lparr> includeTags := Some [] \<rparr>) =
     exportHighlights P library format (eo\<lparr> includeTags := None \<rparr>)
   \<and> createFlashcards library (fo\<lparr> onlyTagged := Some [] \<rparr>) =
     createFlashcards library (fo\<lparr> onlyTagged := None \<rparr>)
   \<and> booksToSearch library (so\<lparr> includeBooks := Some [], excludeBooks := Some [] \<rparr>) =
     books library
   \<and> searchHighlights library query
       (so\<lparr> includeBooks := Some [], excludeBooks := Some [], highlightTypes := Some [] \<rparr>) =
     concat (map (\<lambda>book. filter (isMatch so query) (highlights book)) (books library))
   \<and> booksToExport library (eo\<lparr> exportIncludeBooks := Some [], includeTags := Some [] \<rparr>) =
     books library
   \<and> exportHighlights P library format
       (eo\<lparr> exportIncludeBooks := Some [], includeTags := Some [] \<rparr>) =
     (if format = str ''markdown''
      then Inr (exportToMarkdown (books library)
                  (case groupByBook eo of None \<Rightarrow> True | Some g \<Rightarrow> g))
      else if format = str ''csv'' then exportToCsv P (books library)
      else if format = str ''json''
      then Inr (jsonStringify P (books library)
                  (sum_list (map (\<lambda>book. length (highlights book)) (books library))) DateNow)
      else Inl (Error (str ''Unsupported export format: '' @ format)))
   \<and> makeCard (fo\<lparr> onlyTagged := Some [] \<rparr>) book h = cardFor book h
   \<and> createFlashcards library \<lparr> onlyTagged = Some [], maxCards = None \<rparr> =
     concat (map (\<lambda>book. List.map_filter (cardFor book) (highlights book)) (books library))"
proof (intro conjI)
  show "searchHighlights library query (so\<lparr> includeBooks := Some [] \<rparr>) =
     searchHighlights library query (so\<lparr> includeBooks := None \<rparr>)"
    by (simp add: searchHighlights_def booksToSearch_def given_def typeSkipped_def isMatch_def
        Let_def cong: if_cong)
  show "searchHighlights library query (so\<lparr> excludeBooks := Some [] \<rparr>) =
     searchHighlights library query (so\<lparr> excludeBooks := None \<rparr>)"
    by (simp add: searchHighlights_def booksToSearch_def given_def typeSkipped_def isMatch_def
        Let_def cong: if_cong)
  show "searchHighlights library query (so\<lparr> highlightTypes := Some [] \<rparr>) =
     searchHighlights library query (so\<lparr> highlightTypes := None \<rparr>)"
    by (simp add: searchHighlights_def booksToSearch_def given_def typeSkipped_def isMatch_def
        Let_def cong: if_cong)
  show "exportHighlights P library format (eo\<lparr> exportIncludeBooks := Some [] \<rparr>) =
     exportHighlights P library format (eo\<lparr> exportIncludeBooks := None \<rparr>)"
    by (simp add: exportHighlights_def booksToExport_def given_def Let_def cong: if_cong)
  show "exportHighlights P library format (eo\<lparr> includeTags := Some [] \<rparr>) =
     exportHighlights P library format (eo\<lparr> includeTags := None \<rparr>)"
    by (simp add: exportHighlights_def booksToExport_def given_def Let_def cong: if_cong)
  show "createFlashcards library (fo\<lparr> onlyTagged := Some [] \<rparr>) =
     createFlashcards library (fo\<lparr> onlyTagged := None \<rparr>)"
    by (simp add: createFlashcards_def bookLoop_cong [OF makeCard_onlyTagged])
  show "booksToSearch library (so\<lparr> includeBooks := Some [], excludeBooks := Some [] \<rparr>) =
     books library"
    by (simp add: booksToSearch_def given_def)
  show "searchHighlights library query
       (so\<lparr> includeBooks := Some [], excludeBooks := Some [], highlightTypes := Some [] \<rparr>) =
     concat (map (\<lambda>book. filter (isMatch so query) (highlights book)) (books library))"
    by (simp add: searchHighlights_def booksToSearch_def given_def typeSkipped_def
        isMatch_options)
  show "booksToExport library (eo\<lparr> exportIncludeBooks := Some [], includeTags := Some [] \<rparr>) =
     books library"
    by (simp add: booksToExport_def given_def)
  show "exportHighlights P library format
       (eo\<lparr> exportIncludeBooks := Some [], includeTags := Some [] \<rparr>) =
     (if format = str ''markdown''
      then Inr (exportToMarkdown (books library)
                  (case groupByBook eo of None \<Rightarrow> True | Some g \<Rightarrow> g))
      else if format = str ''csv'' then exportToCsv P (books library)
      else if format = str ''json''
      then Inr (jsonStringify P (books library)
                  (sum_list (map (\<lambda>book. length (highlights book)) (books library))) DateNow)
      else Inl (Error (str ''Unsupported export format: '' @ format)))"
    by (simp add: exportHighlights_def booksToExport_def given_def Let_def)
  show "makeCard (fo\<lparr> onlyTagged := Some [] \<rparr>) book h = cardFor book h"
    by (rule makeCard_cardFor)
  have "makeCard \<lparr> onlyTagged = Some [], maxCards = None \<rparr> b = cardFor b" for b
    using makeCard_cardFor [of "\<lparr> onlyTagged = None, maxCards = None \<rparr>" b] by (intro ext) simp
  then show "createFlashcards library \<lparr> onlyTagged = Some [], maxCards = None \<rparr> =
     concat (map (\<lambda>book. List.map_filter (cardFor book) (highlights book)) (books library))"
    by (simp add: createFlashcards_def bookLoop_unbounded)
qed

theorem empty_list_is_no_restriction_witness:
  "searchHighlights
     (singleBook [plainHighlight (str ''B'') Highlight (str ''abc''),
                  plainHighlight (str ''B'') Note (str ''xyz'')]) (str ''b'')
     (noSearchOptions\<lparr> includeBooks := Some [], excludeBooks := Some [],
                        highlightTypes := Some [] \<rparr>) =
     [plainHighlight (str ''B'') Highlight (str ''abc'')]
   \<and> exportHighlights fixedDatePlatform
       (singleBook [plainHighlight (str ''B'') Highlight (str ''abc'')]) (str ''csv'')
       (noExportOptions\<lparr> exportIncludeBooks := Some [], includeTags := Some [] \<rparr>) =
     Inr (str ''Book Title,Author,Content,Location,Page,Date Added,Type,Tags'' @ [10] @
          [34] @ str ''B'' @ [34] @ str '',,'' @ [34] @ str ''abc'' @ [34] @
          str '',unknown,,2024-01-01T10:00:00.000Z,highlight,'' @ [34, 34] @ [10])
   \<and> createFlashcards (singleBook [plainHighlight (str ''B'') Highlight gravityContent])
       (noFlashcardOptions\<lparr> onlyTagged := Some [] \<rparr>) =
     [\<lparr> question = str ''What is Gravity?'', answer = gravityContent, source = str ''B'' \<rparr>]"
proof (intro conjI)
  show "searchHighlights
     (singleBook [plainHighlight (str ''B'') Highlight (str ''abc''),
                  plainHighlight (str ''B'') Note (str ''xyz'')]) (str ''b'')
     (noSearchOptions\<lparr> includeBooks := Some [], excludeBooks := Some [],
                        highlightTypes := Some [] \<rparr>) =
     [plainHighlight (str ''B'') Highlight (str ''abc'')]"
    using empty_list_is_no_restriction
      [of "singleBook [plainHighlight (str ''B'') Highlight (str ''abc''),
                       plainHighlight (str ''B'') Note (str ''xyz'')]" "str ''b''"
          noSearchOptions noPlatform "str ''csv''" noExportOptions noFlashcardOptions
          fiveHighlights scenario1Highlight]
    by (simp add: search_eval)
  show "exportHighlights fixedDatePlatform
       (singleBook [plainHighlight (str ''B'') Highlight (str ''abc'')]) (str ''csv'')
       (noExportOptions\<lparr> exportIncludeBooks := Some [], includeTags := Some [] \<rparr>) =
     Inr (str ''Book Title,Author,Content,Location,Page,Date Added,Type,Tags'' @ [10] @
          [34] @ str ''B'' @ [34] @ str '',,'' @ [34] @ str ''abc'' @ [34] @
          str '',unknown,,2024-01-01T10:00:00.000Z,highlight,'' @ [34, 34] @ [10])"
    using empty_list_is_no_restriction
      [of "singleBook [plainHighlight (str ''B'') Highlight (str ''abc'')]" "str ''b''"
          noSearchOptions fixedDatePlatform "str ''csv''" noExportOptions noFlashcardOptions
          fiveHighlights scenario1Highlight]
      csv_row_abc
    by (simp add: str_def)
  show "createFlashcards (singleBook [plainHighlight (str ''B'') Highlight gravityContent])
       (noFlashcardOptions\<lparr> onlyTagged := Some [] \<rparr>) =
     [\<lparr> question = str ''What is Gravity?'', answer = gravityContent, source = str ''B'' \<rparr>]"
    using empty_list_is_no_restriction
      [of "singleBook [plainHighlight (str ''B'') Highlight gravityContent]" "str ''b''"
          noSearchOptions noPlatform "str ''csv''" noExportOptions noFlashcardOptions
          fiveHighlights scenario1Highlight]
      gravity_cards
    by (simp add: noFlashcardOptions_def)
qed

section \<open>Frame properties\<close>

lemma frameD:
  "frame n m Q \<Longrightarrow> n \<le> length s \<Longrightarrow>
   n \<le> length (snd (run_state m s)) \<and> take n (snd (run_state m s)) = take n s \<and>
   Q (fst (run_state m s))"
  unfolding frame_def by blast

lemma frame_return: "Q a \<Longrightarrow> frame n (State_Monad.return a) Q"
  unfolding frame_def by simp

lemma run_bind:
  "run_state (m \<bind> f) s = run_state (f (fst (run_state m s))) (snd (run_state m s))"
  by (simp add: split_beta)

lemma frame_bind:
  assumes m: "frame n m Q" and f: "\<And>a. Q a \<Longrightarrow> frame n (f a) R"
  shows "frame n (m \<bind> f) R"
  unfolding frame_def
proof (intro allI impI)
  fix s :: store
  assume n: "n \<le> length s"
  let ?a = "fst (run_state m s)" and ?s1 = "snd (run_state m s)"
  from frameD [OF m n] have s1: "n \<le> length ?s1" "take n ?s1 = take n s" "Q ?a"
    by blast+
  from frameD [OF f [OF s1(3)] s1(1)]
  show "n \<le> length (snd (run_state (m \<bind> f) s)) \<and>
        take n (snd (run_state (m \<bind> f) s)) = take n s \<and> R (fst (run_state (m \<bind> f) s))"
    unfolding run_bind s1(2) [symmetric] .
qed

lemma frame_weaken: "frame n m Q \<Longrightarrow> (\<And>a. Q a \<Longrightarrow> R a) \<Longrightarrow> frame n m R"
  unfolding frame_def by blast

lemma frame_alloc: "frame n (alloc c) (\<lambda>r. n \<le> r)"
  unfolding frame_def alloc_def by simp

lemma frame_cellAt: "frame n (cellAt r) (\<lambda>_. True)"
  unfolding frame_def cellAt_def by simp

lemma frame_modify: "n \<le> r \<Longrightarrow> frame n (modify r f) (\<lambda>_. True)"
  unfolding frame_def modify_def by simp

lemma frame_then:
  "frame n m (\<lambda>_. True) \<Longrightarrow> frame n k R \<Longrightarrow> frame n (m \<bind> (\<lambda>_. k)) R"
  by (rule frame_bind)

lemma frame_forEach:
  "(\<And>x. frame n (f x) (\<lambda>_. True)) \<Longrightarrow> frame n (forEach xs f) (\<lambda>_. True)"
proof (induction xs)
  case Nil
  show ?case unfolding forEach.simps by (rule frame_return) simp
next
  case (Cons x xs)
  show ?case
    unfolding forEach.simps
    by (rule frame_then [OF Cons.prems Cons.IH [OF Cons.prems]])
qed

lemma frame_prefix:
  assumes "frame (length s) m Q"
  shows "prefix s (snd (run_state m s))"
proof -
  from frameD [OF assms order_refl]
  have "take (length s) (snd (run_state m s)) = s" by simp
  then have "snd (run_state m s) = s @ drop (length s) (snd (run_state m s))"
    by (metis append_take_drop_id)
  then show ?thesis unfolding prefix_def ..
qed

lemma frame_read:
  "frame n (readBooks r) (\<lambda>_. True)" "frame n (readHighlights r) (\<lambda>_. True)"
  "frame n (readStrings r) (\<lambda>_. True)" "frame n (readRefs r) (\<lambda>_. True)"
  "frame n (readCards r) (\<lambda>_. True)" "frame n (readTagMap r) (\<lambda>_. True)"
  unfolding readBooks_def readHighlights_def readStrings_def readRefs_def readCards_def
    readTagMap_def
  by (rule frame_bind [OF frame_cellAt], rule frame_return, simp)+

lemma frame_write:
  "n \<le> r \<Longrightarrow> frame n (pushHighlight r h) (\<lambda>_. True)"
  "n \<le> r \<Longrightarrow> frame n (pushString r x) (\<lambda>_. True)"
  "n \<le> r \<Longrightarrow> frame n (pushRef r c) (\<lambda>_. True)"
  "n \<le> r \<Longrightarrow> frame n (pushCard r d) (\<lambda>_. True)"
  "n \<le> r \<Longrightarrow> frame n (sortHighlights cmp r) (\<lambda>_. True)"
  "n \<le> r \<Longrightarrow> frame n (setString r i x) (\<lambda>_. True)"
  unfolding pushHighlight_def pushString_def pushRef_def pushCard_def sortHighlights_def
    setString_def
  by (rule frame_modify, assumption)+

lemma frame_if:
  "(c \<Longrightarrow> frame n a Q) \<Longrightarrow> (\<not> c \<Longrightarrow> frame n b Q) \<Longrightarrow> frame n (if c then a else b) Q"
  by simp

lemma frame_unit: "frame n (State_Monad.return ()) (\<lambda>_. True)"
  by (rule frame_return) simp

lemma frame_tagMap:
  "n \<le> r \<Longrightarrow> frame n (setTagMap r tag) (\<lambda>_. True)"
  "n \<le> r \<Longrightarrow> frame n (pushBucket r tag h) (\<lambda>_. True)"
  unfolding setTagMap_def pushBucket_def by (rule frame_modify, assumption)+

lemma frame_booksToSearchH: "frame n (booksToSearchH library options) (\<lambda>_. True)"
  unfolding booksToSearchH_def
  apply (rule frame_bind [OF frame_read(1)])
  apply (rule frame_bind [OF frame_alloc])
  apply (rule frame_bind [where Q = "\<lambda>_. True"])
   apply (rule frame_if)
    apply (rule frame_bind [OF frame_read(1)])
    apply (rule frame_weaken [OF frame_alloc], simp)
   apply (rule frame_return, simp)
  apply (rule frame_if)
   apply (rule frame_bind [OF frame_read(1)])
   apply (rule frame_weaken [OF frame_alloc], simp)
  apply (rule frame_return, simp)
  done

lemma frame_searchHighlightsH: "frame n (searchHighlightsH library query options) (\<lambda>_. True)"
  unfolding searchHighlightsH_def
  apply (rule frame_bind [OF frame_alloc])
  apply (rule frame_bind [OF frame_booksToSearchH])
  apply (rule frame_bind [OF frame_read(1)])
  apply (rule frame_then)
   apply (rule frame_forEach)
   apply (rule frame_bind [OF frame_read(2)])
   apply (rule frame_forEach)
   apply (intro frame_if frame_unit frame_write(1), assumption)
  apply (rule frame_return, simp)
  done

lemma frame_groupByTagsH: "frame n (groupByTagsH library) (\<lambda>_. True)"
  unfolding groupByTagsH_def
  apply (rule frame_bind [OF frame_alloc])
  apply (rule frame_bind [OF frame_read(1)])
  apply (rule frame_then)
   apply (rule frame_forEach)
   apply (rule frame_bind [OF frame_read(2)])
   apply (rule frame_forEach)
   apply (rule frame_bind [OF frame_read(3)])
   apply (rule frame_forEach)
   apply (rule frame_bind [OF frame_read(6)])
   apply (rule frame_then)
    apply (intro frame_if frame_unit frame_tagMap(1), assumption)
   apply (rule frame_tagMap(2), assumption)
  apply (rule frame_return, simp)
  done

lemma frame_traverse:
  "(\<And>x. frame n (f x) (\<lambda>_. True)) \<Longrightarrow> frame n (State_Monad.traverse_list f xs) (\<lambda>_. True)"
proof (induction xs)
  case Nil
  show ?case unfolding traverse_list.simps by (rule frame_return) simp
next
  case (Cons x xs)
  show ?case
    unfolding traverse_list.simps
    apply (rule frame_bind [OF Cons.prems])
    apply (rule frame_bind [OF Cons.IH [OF Cons.prems]])
    apply (rule frame_return, simp)
    done
qed

lemma frame_chapterLoopH:
  "n \<le> chapters \<Longrightarrow> frame n (chapterLoopH fuel i step sortedHighlights chapters) (\<lambda>_. True)"
proof (induction fuel arbitrary: i)
  case 0
  show ?case
    unfolding chapterLoopH.simps
    by (rule frame_bind [OF frame_read(2)], rule frame_return, simp)
next
  case (Suc fuel)
  show ?case
    unfolding chapterLoopH.simps
    apply (rule frame_bind [OF frame_read(2)])
    apply (rule frame_if)
     apply (rule frame_bind [OF frame_alloc])
     apply (rule frame_then)
      apply (rule frame_write(3) [OF Suc.prems])
     apply (rule Suc.IH [OF Suc.prems])
    apply (rule frame_return, simp)
    done
qed

lemma frame_createBookSummaryH: "frame n (createBookSummaryH fuel book) (\<lambda>_. True)"
  unfolding createBookSummaryH_def
  apply (rule frame_bind [OF frame_read(2)])
  apply (rule frame_if)
   apply (rule frame_return, simp)
  apply (rule frame_bind [OF frame_alloc])
  apply (rule frame_then)
   apply (rule frame_write(5), assumption)
  apply (rule frame_bind [OF frame_read(2)])
  apply (rule frame_bind [OF frame_alloc])
  apply (rule frame_bind [OF frame_chapterLoopH], assumption)
  apply (rule frame_if)
   apply (rule frame_return, simp)
  apply (rule frame_bind [OF frame_read(4)])
  apply (rule frame_bind [OF frame_traverse [OF frame_read(2)]])
  apply (rule frame_return, simp)
  done

lemma frame_metadataH: "frame n (metadataH highlight) (\<lambda>_. True)"
  unfolding metadataH_def
  apply (rule frame_bind [OF frame_alloc])
  apply (rule frame_then)
   apply (intro frame_if frame_unit frame_write(2), assumption)
  apply (rule frame_then)
   apply (intro frame_if frame_unit frame_write(2), assumption)
  apply (rule frame_bind [OF frame_read(3)])
  apply (rule frame_then)
   apply (intro frame_if frame_unit frame_write(2), assumption)
  apply (rule frame_read(3))
  done

lemma frame_metadataLineH: "frame n (metadataLineH highlight) (\<lambda>_. True)"
  unfolding metadataLineH_def
  by (rule frame_bind [OF frame_metadataH], rule frame_return, simp)

lemma frame_exportToMarkdownH: "frame n (exportToMarkdownH bsAt byBook) (\<lambda>_. True)"
  unfolding exportToMarkdownH_def
  apply (rule frame_bind [OF frame_read(1)])
  apply (rule frame_bind [where Q = "\<lambda>_. True"])
   apply (rule frame_traverse)
   apply (rule frame_bind [OF frame_read(2)])
   apply (rule frame_bind [where Q = "\<lambda>_. True"])
    apply (rule frame_traverse)
    apply (rule frame_bind [OF frame_metadataLineH])
    apply (rule frame_return, simp)
   apply (rule frame_return, simp)
  apply (rule frame_return, simp)
  done

lemma frame_case_option:
  "frame n a Q \<Longrightarrow> (\<And>v. frame n (f v) Q) \<Longrightarrow>
   frame n (case x of None \<Rightarrow> a | Some v \<Rightarrow> f v) Q"
  by (cases x) simp_all

lemma frame_csvRowH: "frame n (csvRowH P book highlight) (\<lambda>_. True)"
  unfolding csvRowH_def
  apply (rule frame_bind [OF frame_read(3)])
  apply (rule frame_case_option)
   apply (rule frame_return, simp)
  apply (rule frame_bind [OF frame_alloc])
  apply (rule frame_bind [OF frame_read(3)])
  apply (rule frame_return, simp)
  done

lemma frame_csvRowsH: "frame n (csvRowsH P rows csv) (\<lambda>_. True)"
proof (induction rows arbitrary: csv)
  case Nil
  show ?case unfolding csvRowsH.simps by (rule frame_return) simp
next
  case (Cons bh rows)
  obtain book highlight where bh: "bh = (book, highlight)" by (cases bh)
  have step: "frame n (case r of Inl e \<Rightarrow> State_Monad.return (Inl e)
                       | Inr row \<Rightarrow> csvRowsH P rows (csv @ row)) (\<lambda>_. True)" for r
    by (cases r) (simp_all add: frame_return Cons.IH)
  show ?case
    unfolding bh csvRowsH.simps
    by (rule frame_bind [OF frame_csvRowH]) (rule step)
qed

lemma frame_exportToCsvH: "frame n (exportToCsvH P bsAt) (\<lambda>_. True)"
  unfolding exportToCsvH_def
  apply (rule frame_bind [OF frame_read(1)])
  apply (rule frame_bind [where Q = "\<lambda>_. True"])
   apply (rule frame_traverse)
   apply (rule frame_bind [OF frame_read(2)])
   apply (rule frame_return, simp)
  apply (rule frame_csvRowsH)
  done

lemma frame_readHighlightValue: "frame n (readHighlightValue h) (\<lambda>_. True)"
  unfolding readHighlightValue_def
  by (rule frame_bind [OF frame_read(3)], rule frame_return, simp)

lemma frame_readBookValue: "frame n (readBookValue b) (\<lambda>_. True)"
  unfolding readBookValue_def
  apply (rule frame_bind [OF frame_read(2)])
  apply (rule frame_bind [OF frame_traverse [OF frame_readHighlightValue]])
  apply (rule frame_return, simp)
  done

lemma frame_keepTagged: "frame n (keepTagged options hs) (\<lambda>_. True)"
proof (induction hs)
  case Nil
  show ?case unfolding keepTagged.simps by (rule frame_return) simp
next
  case (Cons h hs)
  show ?case
    unfolding keepTagged.simps
    apply (rule frame_bind [OF frame_read(3)])
    apply (rule frame_bind [OF Cons.IH])
    apply (rule frame_return, simp)
    done
qed

lemma frame_booksToExportH: "frame n (booksToExportH library options) (\<lambda>_. True)"
  unfolding booksToExportH_def
  apply (rule frame_bind [where Q = "\<lambda>_. True"])
   apply (rule frame_if)
    apply (rule frame_bind [OF frame_read(1)])
    apply (rule frame_weaken [OF frame_alloc], simp)
   apply (rule frame_return, simp)
  apply (rule frame_if)
   apply (rule frame_bind [OF frame_read(1)])
   apply (rule frame_bind [where Q = "\<lambda>_. True"])
    apply (rule frame_traverse)
    apply (rule frame_bind [OF frame_read(2)])
    apply (rule frame_bind [OF frame_keepTagged])
    apply (rule frame_bind [OF frame_alloc])
    apply (rule frame_return, simp)
   apply (rule frame_weaken [OF frame_alloc], simp)
  apply (rule frame_return, simp)
  done

lemma frame_exportHighlightsH: "frame n (exportHighlightsH P library format options) (\<lambda>_. True)"
  unfolding exportHighlightsH_def
  apply (rule frame_bind [OF frame_booksToExportH])
  apply (rule frame_if)
   apply (rule frame_bind [OF frame_exportToMarkdownH])
   apply (rule frame_return, simp)
  apply (rule frame_if)
   apply (rule frame_exportToCsvH)
  apply (rule frame_if)
   apply (rule frame_bind [OF frame_read(1)])
   apply (rule frame_bind [OF frame_traverse [OF frame_readBookValue]])
   apply (rule frame_return, simp)
  apply (rule frame_return, simp)
  done

lemma frame_makeQuestionH: "frame n (makeQuestionH highlight) (\<lambda>_. True)"
  unfolding makeQuestionH_def Let_def
  apply (rule frame_if)
   apply (rule frame_bind [OF frame_alloc])
   apply (rule frame_bind [OF frame_read(3)])
   apply (rule frame_return, simp)
  apply (rule frame_if)
   apply (rule frame_return, simp)
  apply (rule frame_bind [OF frame_alloc])
  apply (rule frame_bind [OF frame_read(3)])
  apply (rule frame_if)
   apply (rule frame_case_option)
    apply (rule frame_return, simp)
   apply (rule frame_then)
    apply (rule frame_write(6), assumption)
   apply (rule frame_bind [OF frame_read(3)])
   apply (rule frame_return, simp)
  apply (rule frame_return, simp)
  done

lemma frame_highlightLoopH:
  "n \<le> flashcards \<Longrightarrow> frame n (highlightLoopH options book flashcards hs) (\<lambda>_. True)"
proof (induction hs)
  case Nil
  show ?case unfolding highlightLoopH.simps by (rule frame_unit)
next
  case (Cons h hs)
  note IH = Cons.IH [OF Cons.prems]
  show ?case
    unfolding highlightLoopH.simps
    apply (rule frame_bind [OF frame_read(3)])
    apply (rule frame_if)
     apply (rule IH)
    apply (rule frame_if)
     apply (rule IH)
    apply (rule frame_bind [OF frame_makeQuestionH])
    apply (rule frame_if)
     apply (rule frame_then)
      apply (rule frame_write(4) [OF Cons.prems])
     apply (rule frame_bind [OF frame_read(5)])
     apply (rule frame_if)
      apply (rule frame_unit)
     apply (rule IH)
    apply (rule IH)
    done
qed

lemma frame_bookLoopH:
  "n \<le> flashcards \<Longrightarrow> frame n (bookLoopH options flashcards bs) (\<lambda>_. True)"
proof (induction bs)
  case Nil
  show ?case unfolding bookLoopH.simps by (rule frame_unit)
next
  case (Cons b bs)
  show ?case
    unfolding bookLoopH.simps
    apply (rule frame_bind [OF frame_read(2)])
    apply (rule frame_then)
     apply (rule frame_highlightLoopH [OF Cons.prems])
    apply (rule frame_bind [OF frame_read(5)])
    apply (rule frame_if)
     apply (rule frame_unit)
    apply (rule Cons.IH [OF Cons.prems])
    done
qed

lemma frame_createFlashcardsH: "frame n (createFlashcardsH library options) (\<lambda>_. True)"
  unfolding createFlashcardsH_def
  apply (rule frame_bind [OF frame_alloc])
  apply (rule frame_bind [OF frame_read(1)])
  apply (rule frame_then)
   apply (rule frame_bookLoopH, assumption)
  apply (rule frame_return, simp)
  done

lemma tagsOnly_refl: "tagsOnly c c"
  by (cases c) (simp_all add: tagsOnly_def)

lemma tagsOnly_trans: "tagsOnly a b \<Longrightarrow> tagsOnly b c \<Longrightarrow> tagsOnly a c"
  by (cases a; cases b; cases c) (auto simp: tagsOnly_def)

lemma onlyTagsD: "onlyTags m \<Longrightarrow> list_all2 tagsOnly s (snd (run_state m s))"
  unfolding onlyTags_def by blast

lemma onlyTags_return: "onlyTags (State_Monad.return a)"
  unfolding onlyTags_def by (simp add: list_all2_same tagsOnly_refl)

lemma onlyTags_bind:
  assumes m: "onlyTags m" and f: "\<And>a. onlyTags (f a)"
  shows "onlyTags (m \<bind> f)"
  unfolding onlyTags_def
proof
  fix s :: store
  have "list_all2 tagsOnly s (snd (run_state m s))" by (rule onlyTagsD [OF m])
  moreover have "list_all2 tagsOnly (snd (run_state m s))
      (snd (run_state (f (fst (run_state m s))) (snd (run_state m s))))"
    by (rule onlyTagsD [OF f])
  ultimately show "list_all2 tagsOnly s (snd (run_state (m \<bind> f) s))"
    unfolding run_bind
    using list_all2_trans [of tagsOnly tagsOnly tagsOnly] tagsOnly_trans by blast
qed

lemma onlyTags_cellAt: "onlyTags (cellAt r)"
  unfolding onlyTags_def cellAt_def by (simp add: list_all2_same tagsOnly_refl)

lemma onlyTags_read:
  "onlyTags (readBooks r)" "onlyTags (readHighlights r)" "onlyTags (readStrings r)"
  unfolding readBooks_def readHighlights_def readStrings_def
  by (rule onlyTags_bind [OF onlyTags_cellAt], rule onlyTags_return)+

lemma onlyTags_pushString: "onlyTags (pushString r x)"
  unfolding onlyTags_def pushString_def modify_def
proof
  fix s :: store
  have "list_all2 tagsOnly s
          (s[r := (case s ! r of StringArray xs \<Rightarrow> StringArray (xs @ [x]) | _ \<Rightarrow> s ! r)])"
    if "r < length s"
    using that
    by (auto simp: list_all2_conv_all_nth nth_list_update tagsOnly_refl tagsOnly_def
        split: cell.splits)
  then show "list_all2 tagsOnly s
     (snd (run_state
        (State (\<lambda>s. ((), if r < length s
              then s[r := case s ! r of StringArray xs \<Rightarrow> StringArray (xs @ [x]) | _ \<Rightarrow> s ! r]
              else s))) s))"
    by (simp add: list_all2_same tagsOnly_refl)
qed

lemma onlyTags_forEach: "(\<And>x. onlyTags (f x)) \<Longrightarrow> onlyTags (forEach xs f)"
  by (induction xs) (simp_all add: onlyTags_return onlyTags_bind)

lemma onlyTags_if: "onlyTags a \<Longrightarrow> onlyTags b \<Longrightarrow> onlyTags (if c then a else b)"
  by simp

lemma onlyTags_case_prod:
  "(\<And>a b. onlyTags (f a b)) \<Longrightarrow> onlyTags (case x of (a, b) \<Rightarrow> f a b)"
  by (cases x) simp

lemma onlyTags_autoTagHighlightsH: "onlyTags (autoTagHighlightsH library customTags)"
  unfolding autoTagHighlightsH_def
  apply (rule onlyTags_bind [OF onlyTags_read(1)])
  apply (rule onlyTags_bind [OF _ onlyTags_return])
  apply (rule onlyTags_forEach)
  apply (rule onlyTags_bind [OF onlyTags_read(2)])
  apply (rule onlyTags_forEach)
  apply (rule onlyTags_bind [OF onlyTags_read(3)])
  apply (rule onlyTags_if [OF onlyTags_return])
  apply (rule onlyTags_forEach)
  apply (rule onlyTags_case_prod)
  apply (rule onlyTags_if [OF _ onlyTags_return])
  apply (rule onlyTags_bind [OF onlyTags_read(3)])
  apply (rule onlyTags_if [OF onlyTags_return onlyTags_pushString])
  done

lemma prefix_nth: "prefix s s' \<Longrightarrow> r < length s \<Longrightarrow> r < length s' \<and> s' ! r = s ! r"
  by (auto simp: prefix_def nth_append)

lemma prefix_cells:
  assumes "prefix s s'" "r < length s"
  shows "booksIn s' r = booksIn s r" "highlightsIn s' r = highlightsIn s r"
    "stringsIn s' r = stringsIn s r"
  using prefix_nth [OF assms] assms(2)
  by (simp_all add: booksIn_def highlightsIn_def stringsIn_def)

lemma value_unchanged:
  assumes p: "prefix s s'" and w: "wellFormed s library"
  shows "valueOfLibrary s' library = valueOfLibrary s library"
proof -
  from w have b: "booksAt library < length s" by (simp add: wellFormed_def)
  have "valueOfBook s' book = valueOfBook s book" if "book \<in> set (booksIn s (booksAt library))" for book
  proof -
    from w that have h: "highlightsAt book < length s"
      and t: "\<forall>x \<in> set (highlightsIn s (highlightsAt book)). tagsAt x < length s"
      by (auto simp: wellFormed_def list_all_iff)
    have "valueOfHighlight s' x = valueOfHighlight s x"
      if "x \<in> set (highlightsIn s (highlightsAt book))" for x
      using t that by (simp add: valueOfHighlight_def prefix_cells(3) [OF p])
    then show ?thesis
      by (simp add: valueOfBook_def prefix_cells(2) [OF p h])
  qed
  then show ?thesis
    by (simp add: valueOfLibrary_def prefix_cells(1) [OF p b])
qed

lemma tagsOnly_cells:
  assumes "list_all2 tagsOnly s s'"
  shows "booksIn s' r = booksIn s r" "highlightsIn s' r = highlightsIn s r"
proof -
  from assms have l: "length s' = length s" by (simp add: list_all2_lengthD)
  have c: "tagsOnly (s ! r) (s' ! r)" if "r < length s"
    using assms that by (simp add: list_all2_conv_all_nth)
  show "booksIn s' r = booksIn s r"
    using c by (cases "r < length s")
      (auto simp: booksIn_def l tagsOnly_def split: cell.splits)
  show "highlightsIn s' r = highlightsIn s r"
    using c by (cases "r < length s")
      (auto simp: highlightsIn_def l tagsOnly_def split: cell.splits)
qed

lemma value_tags_only:
  assumes "list_all2 tagsOnly s s'"
  shows "withoutTags (valueOfLibrary s' library) = withoutTags (valueOfLibrary s library)"
  by (simp add: withoutTags_def valueOfLibrary_def valueOfBook_def valueOfHighlight_def
      tagsOnly_cells [OF assms] comp_def)

text \<open>
  Claim C9. \<open>searchHighlights\<close>, \<open>groupByTags\<close>, \<open>createBookSummary\<close>, \<open>exportHighlights\<close>
  and \<open>createFlashcards\<close> leave every cell of the store they start from as it was (they
  only add cells), so the library read from the store after the call is the library
  read before it: every book, every highlight, every field, in the same order.
  \<open>autoTagHighlights\<close> adds no cell and changes cells only by appending to arrays of
  strings: the arrays of books and of highlights, and with them every property but the
  tags and the order of books and highlights, are as before, and the function returns
  the library it was given.
\<close>

theorem library_frame:
  "prefix s (snd (run_state (searchHighlightsH library query so) s))
   \<and> prefix s (snd (run_state (groupByTagsH library) s))
   \<and> prefix s (snd (run_state (createBookSummaryH fuel book) s))
   \<and> prefix s (snd (run_state (exportHighlightsH P library format eo) s))
   \<and> prefix s (snd (run_state (createFlashcardsH library fo) s))
   \<and> (if wellFormed s library
      then valueOfLibrary (snd (run_state (searchHighlightsH library query so) s)) library =
             valueOfLibrary s library
         \<and> valueOfLibrary (snd (run_state (groupByTagsH library) s)) library =
             valueOfLibrary s library
         \<and> valueOfLibrary (snd (run_state (createBookSummaryH fuel book) s)) library =
             valueOfLibrary s library
         \<and> valueOfLibrary (snd (run_state (exportHighlightsH P library format eo) s)) library =
             valueOfLibrary s library
         \<and> valueOfLibrary (snd (run_state (createFlashcardsH library fo) s)) library =
             valueOfLibrary s library
      else True)
   \<and> list_all2 tagsOnly s (snd (run_state (autoTagHighlightsH library customTags) s))
   \<and> withoutTags (valueOfLibrary (snd (run_state (autoTagHighlightsH library customTags) s)) library) =
       withoutTags (valueOfLibrary s library)
   \<and> fst (run_state (autoTagHighlightsH library customTags) s) = library"
proof -
  have p1: "prefix s (snd (run_state (searchHighlightsH library query so) s))"
    by (rule frame_prefix [OF frame_searchHighlightsH])
  have p2: "prefix s (snd (run_state (groupByTagsH library) s))"
    by (rule frame_prefix [OF frame_groupByTagsH])
  have p3: "prefix s (snd (run_state (createBookSummaryH fuel book) s))"
    by (rule frame_prefix [OF frame_createBookSummaryH])
  have p4: "prefix s (snd (run_state (exportHighlightsH P library format eo) s))"
    by (rule frame_prefix [OF frame_exportHighlightsH])
  have p5: "prefix s (snd (run_state (createFlashcardsH library fo) s))"
    by (rule frame_prefix [OF frame_createFlashcardsH])
  have t: "list_all2 tagsOnly s (snd (run_state (autoTagHighlightsH library customTags) s))"
    by (rule onlyTagsD [OF onlyTags_autoTagHighlightsH])
  have r: "fst (run_state (autoTagHighlightsH library customTags) s) = library"
    by (simp add: autoTagHighlightsH_def split_beta)
  show ?thesis
    using p1 p2 p3 p4 p5 t r value_tags_only [OF t, of library]
      value_unchanged [OF p1, of library] value_unchanged [OF p2, of library]
      value_unchanged [OF p3, of library] value_unchanged [OF p4, of library]
      value_unchanged [OF p5, of library]
    by simp
qed

lemma sample_wellFormed: "wellFormed sampleStore sampleLibrary"
  by (simp add: wellFormed_def sampleStore_def sampleLibrary_def booksIn_def highlightsIn_def)

lemma sample_autoTag:
  "snd (run_state (autoTagHighlightsH sampleLibrary []) sampleStore) =
     sampleStore[2 := StringArray [str ''definition'']]"
  by (simp add: autoTagHighlightsH_def defaultEntries sampleStore_def sampleLibrary_def
      readBooks_def readHighlights_def readStrings_def cellAt_def pushString_def modify_def
      plainHighlight_def)
     (simp add: defaultTags_def str_def toLowerCase_def lowerUnit_def
      readStrings_def cellAt_def pushString_def modify_def)

lemma sample_search:
  "run_state (searchHighlightsH sampleLibrary (str ''RULE'') noSearchOptions) sampleStore =
     (3, sampleStore @
         [HighlightArray
            [\<lparr> props = plainHighlight (str ''B'') Highlight
                         (str ''Democracy is defined as rule by the people''),
               tagsAt = 2 \<rparr>],
          BookArray [\<lparr> obTitle = str ''B'', obAuthor = None, highlightsAt = 1 \<rparr>]])"
  by (simp add: searchHighlightsH_def booksToSearchH_def sampleStore_def sampleLibrary_def
      readBooks_def readHighlights_def cellAt_def pushHighlight_def modify_def alloc_def
      noSearchOptions_def given_def typeSkipped_def plainHighlight_def)
     (simp add: isMatch_def truthy_def str_def toLowerCase_def lowerUnit_def)

text \<open>On the sample store the program over the store and the program over values
  give the same search result and the same library after the tagging.\<close>

lemma sample_value:
  "valueOfLibrary sampleStore sampleLibrary =
     singleBook [plainHighlight (str ''B'') Highlight
                   (str ''Democracy is defined as rule by the people'')]"
  by (simp add: valueOfLibrary_def valueOfBook_def valueOfHighlight_def booksIn_def
      highlightsIn_def stringsIn_def sampleStore_def sampleLibrary_def singleBook_def
      plainHighlight_def)

lemma sample_agreement:
  "map (valueOfHighlight
          (snd (run_state (searchHighlightsH sampleLibrary (str ''RULE'') noSearchOptions)
                  sampleStore)))
       (highlightsIn
          (snd (run_state (searchHighlightsH sampleLibrary (str ''RULE'') noSearchOptions)
                  sampleStore))
          (fst (run_state (searchHighlightsH sampleLibrary (str ''RULE'') noSearchOptions)
                  sampleStore))) =
     searchHighlights (valueOfLibrary sampleStore sampleLibrary) (str ''RULE'') noSearchOptions"
  "valueOfLibrary (snd (run_state (autoTagHighlightsH sampleLibrary []) sampleStore))
       sampleLibrary =
     autoTagHighlights (valueOfLibrary sampleStore sampleLibrary) []"
proof -
  show "map (valueOfHighlight
          (snd (run_state (searchHighlightsH sampleLibrary (str ''RULE'') noSearchOptions)
                  sampleStore)))
       (highlightsIn
          (snd (run_state (searchHighlightsH sampleLibrary (str ''RULE'') noSearchOptions)
                  sampleStore))
          (fst (run_state (searchHighlightsH sampleLibrary (str ''RULE'') noSearchOptions)
                  sampleStore))) =
     searchHighlights (valueOfLibrary sampleStore sampleLibrary) (str ''RULE'') noSearchOptions"
    unfolding sample_search sample_value
    by (simp add: highlightsIn_def valueOfHighlight_def stringsIn_def sampleStore_def
        plainHighlight_def)
       (simp add: search_eval)
  show "valueOfLibrary (snd (run_state (autoTagHighlightsH sampleLibrary []) sampleStore))
       sampleLibrary =
     autoTagHighlights (valueOfLibrary sampleStore sampleLibrary) []"
    unfolding sample_autoTag sample_value
    by (simp add: valueOfLibrary_def valueOfBook_def valueOfHighlight_def booksIn_def
        highlightsIn_def stringsIn_def sampleStore_def sampleLibrary_def singleBook_def
        autoTagHighlights_def defaultEntries autoTagHighlight_def plainHighlight_def)
       (simp add: defaultTags_def str_def toLowerCase_def lowerUnit_def)
qed

theorem library_frame_witness:
  "wellFormed sampleStore sampleLibrary
   \<and> valueOfLibrary
       (snd (run_state (searchHighlightsH sampleLibrary (str ''RULE'') noSearchOptions) sampleStore))
       sampleLibrary = valueOfLibrary sampleStore sampleLibrary
   \<and> snd (run_state (autoTagHighlightsH sampleLibrary []) sampleStore) =
       sampleStore[2 := StringArray [str ''definition'']]"
  using library_frame [of sampleStore sampleLibrary "str ''RULE''" noSearchOptions 0
      "\<lparr> obTitle = str ''B'', obAuthor = None, highlightsAt = 1 \<rparr>" noPlatform "str ''csv''"
      noExportOptions noFlashcardOptions "[]"]
    sample_wellFormed sample_autoTag
  by simp

end
